theory Spec2Isabelle
  imports Main "HOL-Library.Word" "HOL-Library.Char_ord" "HOL-Library.List_Lexorder"
begin

unbundle bit_operations_syntax

section \<open>Strings\<close>

text \<open>
  Go strings are byte sequences; \<open>string\<close> is a list of 8-bit characters. The functions
  below are the calls of the Go package \<open>strings\<close> that the sources make, for a separator
  of one byte.
\<close>

fun Split :: "char \<Rightarrow> string \<Rightarrow> string list" where
  "Split c [] = [[]]"
| "Split c (x # xs) =
     (if x = c then [] # Split c xs
      else (case Split c xs of [] \<Rightarrow> [[x]] | w # ws \<Rightarrow> (x # w) # ws))"

fun strings_Join :: "string list \<Rightarrow> string \<Rightarrow> string" where
  "strings_Join [] sep = []"
| "strings_Join [x] sep = x"
| "strings_Join (x # y # ys) sep = x @ sep @ strings_Join (y # ys) sep"

fun HasPrefix :: "string \<Rightarrow> string \<Rightarrow> bool" where
  "HasPrefix s [] = True"
| "HasPrefix [] (p # ps) = False"
| "HasPrefix (c # cs) (p # ps) = (c = p \<and> HasPrefix cs ps)"

definition HasSuffix :: "string \<Rightarrow> string \<Rightarrow> bool" where
  "HasSuffix s suffix = HasPrefix (rev s) (rev suffix)"

definition TrimSuffix :: "string \<Rightarrow> string \<Rightarrow> string" where
  "TrimSuffix s suffix =
     (if HasSuffix s suffix then take (length s - length suffix) s else s)"

definition is_digit :: "char \<Rightarrow> bool" where
  "is_digit c = (CHR ''0'' \<le> c \<and> c \<le> CHR ''9'')"

definition to_lower :: "char \<Rightarrow> char" where
  "to_lower c =
     (case map_of (zip ''ABCDEFGHIJKLMNOPQRSTUVWXYZ'' ''abcdefghijklmnopqrstuvwxyz'') c of
        None \<Rightarrow> c
      | Some l \<Rightarrow> l)"

section \<open>The resolver (package rdns)\<close>

subsection \<open>Data\<close>

datatype error =
    errKeyNotFound
  | errUnreachable
  | errUnmarshal string
  | errPanic
  | errExist
  | errNotExist
  | errIsDir
  | errNotDir
  | errSyntax
  | errType
  | errNotFound
  | errAlreadyExists

text \<open>
  The fields of an etcd key/value pair (\<open>mvccpb.KeyValue\<close>) that the resolver reads:
  the key, the value and the 64-bit \<open>Lease\<close> field.
\<close>

record KeyValue =
  Key :: string
  Value :: string
  Lease :: "64 word"

text \<open>
  Modelled from the spec: \<open>msg.Service\<close> is declared in the package \<open>msg\<close>, which is
  not among the sources. The spec gives its shape as \<open>{host, text, ttl, priority, mail, key}\<close>;
  the resolver treats \<open>TTL\<close> as \<open>uint32\<close>, compares \<open>Priority\<close> with 0 and fills
  \<open>Key\<close> itself (the key is no part of the stored document).
\<close>

record Service =
  Host :: string
  Text :: string
  TTL_s :: "32 word"
  Priority :: int
  Mail :: bool
  Key_s :: string

definition priority :: int where
  "priority = 10"

definition ttl :: "32 word" where
  "ttl = 300"

definition TypeA :: "16 word" where
  "TypeA = 1"

definition TypeTXT :: "16 word" where
  "TypeTXT = 16"

text \<open>The configuration of the plugin (\<open>ETCD\<close>) and the etcd store it reads.\<close>

record ETCD =
  Zones :: "string list"
  PathPrefix :: string
  WildcardBound :: "8 word"

text \<open>
  The etcd client: the store holds its pairs in key order, a call fails when the
  store cannot be reached, \<open>Get\<close> with \<open>WithPrefix\<close> returns the pairs whose key starts
  with the argument and plain \<open>Get\<close> the pair with that key. \<open>Count\<close> of a response
  is the number of pairs it holds.
\<close>

record etcd_store =
  pairs :: "KeyValue list"
  reachable :: bool

definition Client_Get :: "etcd_store \<Rightarrow> string \<Rightarrow> bool \<Rightarrow> error + KeyValue list" where
  "Client_Get st k withPrefix =
     (if \<not> reachable st then Inl errUnreachable
      else if withPrefix then Inr (filter (\<lambda>kv. HasPrefix (Key kv) k) (pairs st))
      else Inr (filter (\<lambda>kv. Key kv = k) (pairs st)))"

subsection \<open>TTL negotiation and inclusion\<close>

text \<open>
  \<open>ETCD.TTL\<close>: \<open>etcdTTL := uint32(kv.Lease)\<close> keeps the low 32 bits of the lease field.
\<close>

definition TTL :: "KeyValue \<Rightarrow> Service \<Rightarrow> 32 word" where
  "TTL kv serv =
     (let etcdTTL = (ucast (Lease kv) :: 32 word) in
      if etcdTTL = 0 \<and> TTL_s serv = 0 then ttl
      else if etcdTTL = 0 then TTL_s serv
      else if TTL_s serv = 0 then etcdTTL
      else if etcdTTL < TTL_s serv then etcdTTL
      else TTL_s serv)"

definition shouldInclude :: "Service \<Rightarrow> 16 word \<Rightarrow> bool" where
  "shouldInclude serv qType =
     (if qType = TypeTXT then Text serv \<noteq> [] else Host serv \<noteq> [])"

text \<open>
  The TTL negotiation in the words of the spec, over the integers: \<open>leaseTTL\<close> is the
  lease of the pair, \<open>serviceTTL\<close> the \<open>ttl\<close> field of the Service.
\<close>

definition TTL_spec :: "int \<Rightarrow> int \<Rightarrow> int" where
  "TTL_spec leaseTTL serviceTTL =
     (if leaseTTL = 0 \<and> serviceTTL = 0 then 300
      else if leaseTTL = 0 then serviceTTL
      else if serviceTTL = 0 then leaseTTL
      else min leaseTTL serviceTTL)"

subsection \<open>The sibling filter\<close>

text \<open>
  The pattern \<open>^\d{1,3}_\d{1,3}_\d{1,3}_\d{1,3}$\<close>: a digit is never an underscore, so the
  pattern matches exactly the strings that the underscores cut into four groups of one
  to three ASCII digits.
\<close>

definition digits_1_3 :: "string \<Rightarrow> bool" where
  "digits_1_3 g = (1 \<le> length g \<and> length g \<le> 3 \<and> list_all is_digit g)"

definition MatchString_ipv4 :: "string \<Rightarrow> bool" where
  "MatchString_ipv4 s =
     (case Split CHR ''_'' s of
        [a, b, c, d] \<Rightarrow> digits_1_3 a \<and> digits_1_3 b \<and> digits_1_3 c \<and> digits_1_3 d
      | _ \<Rightarrow> False)"

text \<open>
  The body of the loop of \<open>filterKvs\<close> for one pair \<open>v\<close>: \<open>None\<close> is the panic of
  \<open>segments[len(segments)-1:][0]\<close> on an empty slice, \<open>Some True\<close> appends \<open>v\<close> to the
  result. \<open>int8(len(segments))-3\<close> is computed in 8 bits; the lengths compared in the
  second test are Go \<open>int\<close>s.
\<close>

definition filterKvs_keep :: "ETCD \<Rightarrow> string list \<Rightarrow> KeyValue \<Rightarrow> bool option" where
  "filterKvs_keep e segments v =
     (if segments = [] then None
      else
        let ss = Split CHR ''/'' (Key v);
            s = last segments;
            m = MatchString_ipv4 s
        in if s \<noteq> ''*'' \<and> m \<and> WildcardBound e = (of_nat (length segments) :: 8 word) - 3
           then Some False
           else if s \<noteq> ''*'' \<and> int (length ss) - int (length segments) = 1
                   \<or> s = ''*'' \<and> int (length ss) - (int (length segments) - 1) = 1
           then Some True
           else Some False)"

fun filterKvs_loop ::
  "ETCD \<Rightarrow> string list \<Rightarrow> KeyValue list \<Rightarrow> KeyValue list \<Rightarrow> error + KeyValue list" where
  "filterKvs_loop e segments [] result = Inr result"
| "filterKvs_loop e segments (v # kvs) result =
     (case filterKvs_keep e segments v of
        None \<Rightarrow> Inl errPanic
      | Some True \<Rightarrow> filterKvs_loop e segments kvs (result @ [v])
      | Some False \<Rightarrow> filterKvs_loop e segments kvs result)"

definition filterKvs ::
  "ETCD \<Rightarrow> KeyValue list \<Rightarrow> string list \<Rightarrow> 16 word \<Rightarrow> error + KeyValue list" where
  "filterKvs e kvs segments qType =
     (if qType = TypeA then filterKvs_loop e segments kvs [] else Inr kvs)"

text \<open>
  The sibling filter in the words of the spec, with the comparison
  \<open>wildcardBound = len(segments) - 3\<close> read over the integers, and the same rule with
  the comparison made in 8 bits, as \<open>int8(len(segments))-3\<close> makes it.
\<close>

definition sibling_keep_spec :: "ETCD \<Rightarrow> string list \<Rightarrow> KeyValue \<Rightarrow> bool" where
  "sibling_keep_spec e segments v =
     (let leaf = last segments; ss = Split CHR ''/'' (Key v) in
      \<not> (MatchString_ipv4 leaf \<and> sint (WildcardBound e) = int (length segments) - 3) \<and>
      (leaf \<noteq> ''*'' \<and> int (length ss) - int (length segments) = 1
       \<or> leaf = ''*'' \<and> int (length ss) - (int (length segments) - 1) = 1))"

definition sibling_keep_int8 :: "ETCD \<Rightarrow> string list \<Rightarrow> KeyValue \<Rightarrow> bool" where
  "sibling_keep_int8 e segments v =
     (let leaf = last segments; ss = Split CHR ''/'' (Key v) in
      \<not> (MatchString_ipv4 leaf \<and> WildcardBound e = (of_nat (length segments) :: 8 word) - 3) \<and>
      (leaf \<noteq> ''*'' \<and> int (length ss) - int (length segments) = 1
       \<or> leaf = ''*'' \<and> int (length ss) - (int (length segments) - 1) = 1))"

section \<open>JSON documents\<close>

text \<open>
  The stored values are JSON documents, written by \<open>json.Marshal\<close> and read by
  \<open>json.Unmarshal\<close> of Go's \<open>encoding/json\<close>. The model is a reader and a writer for
  the part of JSON the records of this program use: objects, arrays, strings, integer
  numbers, \<open>true\<close>, \<open>false\<close> and \<open>null\<close>, with white space between the tokens.
  A string may hold the escapes \<open>\"\<close>, \<open>\\\<close> and \<open>\/\<close>; other escapes and numbers
  with a fraction or an exponent are outside the model and are refused as a syntax
  error. Text after the top-level value is a syntax error, as in Go.
\<close>

datatype json =
    JNull
  | JBool bool
  | JNum int
  | JStr string
  | JArr "json list"
  | JObj "(string \<times> json) list"

datatype lexeme =
    TLBrace | TRBrace | TLBrack | TRBrack | TColon | TComma
  | TStr string | TNum int | TTrue | TFalse | TNull

datatype lstate =
    LIdle
  | LStr string
  | LEsc string
  | LNum bool string
  | LWord string

definition is_space :: "char \<Rightarrow> bool" where
  "is_space c = (c = CHR '' '' \<or> c = CHR 0x09 \<or> c = CHR 0x0A \<or> c = CHR 0x0D)"

definition is_letter :: "char \<Rightarrow> bool" where
  "is_letter c = (CHR ''a'' \<le> c \<and> c \<le> CHR ''z'')"

fun digits_value :: "string \<Rightarrow> nat \<Rightarrow> nat" where
  "digits_value [] acc = acc"
| "digits_value (c # cs) acc = digits_value cs (10 * acc + (of_char c - 48))"

text \<open>A number token: the digits read so far (in order), with no leading zero.\<close>

definition number_token :: "bool \<Rightarrow> string \<Rightarrow> lexeme option" where
  "number_token neg ds =
     (if ds = [] \<or> (hd ds = CHR ''0'' \<and> length ds > 1) then None
      else Some (TNum (if neg then - int (digits_value ds 0) else int (digits_value ds 0))))"

definition word_token :: "string \<Rightarrow> lexeme option" where
  "word_token w =
     (if w = ''true'' then Some TTrue
      else if w = ''false'' then Some TFalse
      else if w = ''null'' then Some TNull
      else None)"

text \<open>One character read between tokens: the tokens it completes and the next state.\<close>

definition idle_step :: "char \<Rightarrow> (lexeme list \<times> lstate) option" where
  "idle_step c =
     (if is_space c then Some ([], LIdle)
      else if c = CHR ''{'' then Some ([TLBrace], LIdle)
      else if c = CHR ''}'' then Some ([TRBrace], LIdle)
      else if c = CHR ''['' then Some ([TLBrack], LIdle)
      else if c = CHR '']'' then Some ([TRBrack], LIdle)
      else if c = CHR '':'' then Some ([TColon], LIdle)
      else if c = CHR '','' then Some ([TComma], LIdle)
      else if c = CHR 0x22 then Some ([], LStr [])
      else if c = CHR ''-'' then Some ([], LNum True [])
      else if is_digit c then Some ([], LNum False [c])
      else if is_letter c then Some ([], LWord [c])
      else None)"

fun lex_step :: "lstate \<Rightarrow> char \<Rightarrow> (lexeme list \<times> lstate) option" where
  "lex_step LIdle c = idle_step c"
| "lex_step (LStr acc) c =
     (if c = CHR 0x22 then Some ([TStr acc], LIdle)
      else if c = CHR 0x5C then Some ([], LEsc acc)
      else if of_char c < (32::nat) then None
      else Some ([], LStr (acc @ [c])))"
| "lex_step (LEsc acc) c =
     (if c = CHR 0x22 \<or> c = CHR 0x5C \<or> c = CHR ''/'' then Some ([], LStr (acc @ [c]))
      else None)"
| "lex_step (LNum neg ds) c =
     (if is_digit c then Some ([], LNum neg (ds @ [c]))
      else (case number_token neg ds of
              None \<Rightarrow> None
            | Some t \<Rightarrow>
                (case idle_step c of
                   None \<Rightarrow> None
                 | Some (ts, st) \<Rightarrow> Some (t # ts, st))))"
| "lex_step (LWord w) c =
     (if is_letter c then Some ([], LWord (w @ [c]))
      else (case word_token w of
              None \<Rightarrow> None
            | Some t \<Rightarrow>
                (case idle_step c of
                   None \<Rightarrow> None
                 | Some (ts, st) \<Rightarrow> Some (t # ts, st))))"

fun lex_finish :: "lstate \<Rightarrow> lexeme list option" where
  "lex_finish LIdle = Some []"
| "lex_finish (LStr acc) = None"
| "lex_finish (LEsc acc) = None"
| "lex_finish (LNum neg ds) = map_option (\<lambda>t. [t]) (number_token neg ds)"
| "lex_finish (LWord w) = map_option (\<lambda>t. [t]) (word_token w)"

fun lexer :: "lstate \<Rightarrow> string \<Rightarrow> lexeme list option" where
  "lexer st [] = lex_finish st"
| "lexer st (c # cs) =
     (case lex_step st c of
        None \<Rightarrow> None
      | Some (ts, st') \<Rightarrow> map_option (\<lambda>r. ts @ r) (lexer st' cs))"

text \<open>
  The parser reads one value from the tokens and returns the rest. Its first argument
  bounds the nesting and the number of members it may still read; \<open>json_parse\<close> gives it
  more than the number of tokens, which no document uses up.
\<close>

fun parse_value :: "nat \<Rightarrow> lexeme list \<Rightarrow> (json \<times> lexeme list) option"
  and parse_elems :: "nat \<Rightarrow> lexeme list \<Rightarrow> (json list \<times> lexeme list) option"
  and parse_members :: "nat \<Rightarrow> lexeme list \<Rightarrow> ((string \<times> json) list \<times> lexeme list) option"
where
  "parse_value 0 ts = None"
| "parse_value (Suc n) [] = None"
| "parse_value (Suc n) (TStr s # ts) = Some (JStr s, ts)"
| "parse_value (Suc n) (TNum i # ts) = Some (JNum i, ts)"
| "parse_value (Suc n) (TTrue # ts) = Some (JBool True, ts)"
| "parse_value (Suc n) (TFalse # ts) = Some (JBool False, ts)"
| "parse_value (Suc n) (TNull # ts) = Some (JNull, ts)"
| "parse_value (Suc n) (TLBrack # ts) =
     (case ts of
        TRBrack # r \<Rightarrow> Some (JArr [], r)
      | _ \<Rightarrow> map_option (\<lambda>(vs, r). (JArr vs, r)) (parse_elems n ts))"
| "parse_value (Suc n) (TLBrace # ts) =
     (case ts of
        TRBrace # r \<Rightarrow> Some (JObj [], r)
      | _ \<Rightarrow> map_option (\<lambda>(ms, r). (JObj ms, r)) (parse_members n ts))"
| "parse_value (Suc n) (TRBrace # ts) = None"
| "parse_value (Suc n) (TRBrack # ts) = None"
| "parse_value (Suc n) (TColon # ts) = None"
| "parse_value (Suc n) (TComma # ts) = None"
| "parse_elems 0 ts = None"
| "parse_elems (Suc n) ts =
     (case parse_value n ts of
        None \<Rightarrow> None
      | Some (v, TComma # r) \<Rightarrow> map_option (\<lambda>(vs, r'). (v # vs, r')) (parse_elems n r)
      | Some (v, TRBrack # r) \<Rightarrow> Some ([v], r)
      | Some (v, _) \<Rightarrow> None)"
| "parse_members 0 ts = None"
| "parse_members (Suc n) ts =
     (case ts of
        TStr k # TColon # r \<Rightarrow>
          (case parse_value n r of
             None \<Rightarrow> None
           | Some (v, TComma # r') \<Rightarrow> map_option (\<lambda>(ms, r''). ((k, v) # ms, r'')) (parse_members n r')
           | Some (v, TRBrace # r') \<Rightarrow> Some ([(k, v)], r')
           | Some (v, _) \<Rightarrow> None)
      | _ \<Rightarrow> None)"

definition json_parse :: "string \<Rightarrow> json option" where
  "json_parse s =
     (case lexer LIdle s of
        None \<Rightarrow> None
      | Some ts \<Rightarrow>
          (case parse_value (Suc (length ts)) ts of
             Some (v, []) \<Rightarrow> Some v
           | _ \<Rightarrow> None))"

text \<open>The writer: Go's compact form, members in the order given.\<close>

fun digits_of :: "nat \<Rightarrow> string" where
  "digits_of n =
     (if n < 10 then [''0123456789'' ! n]
      else digits_of (n div 10) @ [''0123456789'' ! (n mod 10)])"

definition int_text :: "int \<Rightarrow> string" where
  "int_text i = (if i < 0 then CHR ''-'' # digits_of (nat (- i)) else digits_of (nat i))"

definition quote_text :: "string \<Rightarrow> string" where
  "quote_text s =
     [CHR 0x22] @ concat (map (\<lambda>c. if c = CHR 0x22 \<or> c = CHR 0x5C then [CHR 0x5C, c] else [c]) s)
       @ [CHR 0x22]"

fun json_text :: "json \<Rightarrow> string" where
  "json_text JNull = ''null''"
| "json_text (JBool b) = (if b then ''true'' else ''false'')"
| "json_text (JNum i) = int_text i"
| "json_text (JStr s) = quote_text s"
| "json_text (JArr vs) = ''['' @ strings_Join (map json_text vs) '','' @ '']''"
| "json_text (JObj ms) =
     ''{'' @ strings_Join (map (\<lambda>m. quote_text (fst m) @ '':'' @ json_text (snd m)) ms) '','' @ ''}''"

text \<open>
  Decoding into a Go struct: \<open>json.Unmarshal\<close> accepts an object and stores each member
  whose name equals a field's JSON name, letter case ignored, when the value has the
  field's type; \<open>null\<close> leaves the target as it is; members of other names are skipped.
  A value of another type is an error. The functions below give the value a member
  must have for a field of each Go type.
\<close>

definition key_is :: "string \<Rightarrow> string \<Rightarrow> bool" where
  "key_is k field = (map to_lower k = map to_lower field)"

definition as_string :: "json \<Rightarrow> string \<Rightarrow> string option" where
  "as_string v old = (case v of JStr s \<Rightarrow> Some s | JNull \<Rightarrow> Some old | _ \<Rightarrow> None)"

definition as_int64 :: "json \<Rightarrow> int \<Rightarrow> int option" where
  "as_int64 v old =
     (case v of
        JNum i \<Rightarrow> if - (2 ^ 63) \<le> i \<and> i < 2 ^ 63 then Some i else None
      | JNull \<Rightarrow> Some old
      | _ \<Rightarrow> None)"

definition as_uint32 :: "json \<Rightarrow> 32 word \<Rightarrow> 32 word option" where
  "as_uint32 v old =
     (case v of
        JNum i \<Rightarrow> if 0 \<le> i \<and> i < 2 ^ 32 then Some (word_of_int i) else None
      | JNull \<Rightarrow> Some old
      | _ \<Rightarrow> None)"

definition as_bool :: "json \<Rightarrow> bool \<Rightarrow> bool option" where
  "as_bool v old = (case v of JBool b \<Rightarrow> Some b | JNull \<Rightarrow> Some old | _ \<Rightarrow> None)"

fun as_strings_elems :: "json list \<Rightarrow> string list option" where
  "as_strings_elems [] = Some []"
| "as_strings_elems (v # vs) =
     (case as_string v [] of
        None \<Rightarrow> None
      | Some s \<Rightarrow> map_option (\<lambda>r. s # r) (as_strings_elems vs))"

definition as_strings :: "json \<Rightarrow> string list \<Rightarrow> string list option" where
  "as_strings v old = (case v of JArr vs \<Rightarrow> as_strings_elems vs | JNull \<Rightarrow> Some [] | _ \<Rightarrow> None)"

text \<open>
  The members of an object are stored one after the other by \<open>set_field\<close>; a top-level
  \<open>null\<close> changes nothing and any other value than an object is a type error.
\<close>

fun decode_members :: "(string \<Rightarrow> json \<Rightarrow> 'a \<Rightarrow> 'a option) \<Rightarrow> (string \<times> json) list \<Rightarrow> 'a \<Rightarrow> 'a option" where
  "decode_members set_field [] x = Some x"
| "decode_members set_field ((k, v) # ms) x =
     (case set_field k v x of
        None \<Rightarrow> None
      | Some x' \<Rightarrow> decode_members set_field ms x')"

definition decode_struct :: "(string \<Rightarrow> json \<Rightarrow> 'a \<Rightarrow> 'a option) \<Rightarrow> json \<Rightarrow> 'a \<Rightarrow> 'a option" where
  "decode_struct set_field j x =
     (case j of
        JObj ms \<Rightarrow> decode_members set_field ms x
      | JNull \<Rightarrow> Some x
      | _ \<Rightarrow> None)"

section \<open>Looking records up\<close>

subsection \<open>Decoding a Service\<close>

text \<open>
  Modelled from the spec: the JSON names of the fields of \<open>msg.Service\<close> (the struct is
  not among the sources) are the names the spec uses, \<open>host\<close>, \<open>text\<close>, \<open>ttl\<close>,
  \<open>priority\<close> and \<open>mail\<close>; \<open>key\<close> is not read from the document.
\<close>

definition Service_zero :: Service where
  "Service_zero = \<lparr>Host = [], Text = [], TTL_s = 0, Priority = 0, Mail = False, Key_s = []\<rparr>"

definition Service_field :: "string \<Rightarrow> json \<Rightarrow> Service \<Rightarrow> Service option" where
  "Service_field k v s =
     (if key_is k ''host'' then map_option (\<lambda>x. s\<lparr>Host := x\<rparr>) (as_string v (Host s))
      else if key_is k ''text'' then map_option (\<lambda>x. s\<lparr>Text := x\<rparr>) (as_string v (Text s))
      else if key_is k ''ttl'' then map_option (\<lambda>x. s\<lparr>TTL_s := x\<rparr>) (as_uint32 v (TTL_s s))
      else if key_is k ''priority'' then map_option (\<lambda>x. s\<lparr>Priority := x\<rparr>) (as_int64 v (Priority s))
      else if key_is k ''mail'' then map_option (\<lambda>x. s\<lparr>Mail := x\<rparr>) (as_bool v (Mail s))
      else Some s)"

definition Unmarshal_Service :: "string \<Rightarrow> Service \<Rightarrow> Service option" where
  "Unmarshal_Service data serv =
     (case json_parse data of
        None \<Rightarrow> None
      | Some j \<Rightarrow> decode_struct Service_field j serv)"

subsection \<open>\<open>loopNodes\<close>\<close>

text \<open>
  The inner loop of \<open>loopNodes\<close> over \<open>nameParts\<close>: \<open>False\<close> is \<open>continue Nodes\<close>.
  The index \<open>i\<close> runs along both lists, so the test \<open>i > len(keyParts)-1\<close> is the
  case of a key with no part left.
\<close>

fun nameParts_match :: "string list \<Rightarrow> string list \<Rightarrow> bool" where
  "nameParts_match keyParts [] = True"
| "nameParts_match [] (n # nameParts) = False"
| "nameParts_match (k # keyParts) (n # nameParts) =
     (if n = ''*'' \<or> n = ''any'' then nameParts_match keyParts nameParts
      else if k \<noteq> n then False
      else nameParts_match keyParts nameParts)"

text \<open>
  The loop over the pairs, with the map \<open>bx\<close> of the Services seen and the result \<open>sx\<close>.
  A value that does not decode ends the function with an error that names the key.
\<close>

fun loopNodes_loop ::
  "KeyValue list \<Rightarrow> string list \<Rightarrow> bool \<Rightarrow> 16 word \<Rightarrow> Service list \<Rightarrow> Service list
     \<Rightarrow> error + Service list" where
  "loopNodes_loop [] nameParts star qType bx sx = Inr sx"
| "loopNodes_loop (n # kv) nameParts star qType bx sx =
     (if star \<and> \<not> nameParts_match (Split CHR ''/'' (Key n)) nameParts
      then loopNodes_loop kv nameParts star qType bx sx
      else
        (case Unmarshal_Service (Value n) Service_zero of
           None \<Rightarrow> Inl (errUnmarshal (Key n))
         | Some serv0 \<Rightarrow>
             (let serv = serv0\<lparr>Key_s := Key n\<rparr> in
              if serv \<in> set bx then loopNodes_loop kv nameParts star qType bx sx
              else
                (let serv1 = serv\<lparr>TTL_s := TTL n serv\<rparr>;
                     serv2 = (if Priority serv1 = 0 then serv1\<lparr>Priority := priority\<rparr> else serv1)
                 in if shouldInclude serv2 qType
                    then loopNodes_loop kv nameParts star qType (serv # bx) (sx @ [serv2])
                    else loopNodes_loop kv nameParts star qType (serv # bx) sx))))"

definition loopNodes ::
  "KeyValue list \<Rightarrow> string list \<Rightarrow> bool \<Rightarrow> 16 word \<Rightarrow> error + Service list" where
  "loopNodes kv nameParts star qType = loopNodes_loop kv nameParts star qType [] []"

text \<open>
  A pair that \<open>loopNodes\<close> reaches (every pair when \<open>star\<close> is false, the pairs whose
  key matches the name otherwise) and whose value does not decode into a Service.
\<close>

definition offending :: "string list \<Rightarrow> bool \<Rightarrow> KeyValue \<Rightarrow> bool" where
  "offending nameParts star n =
     ((\<not> star \<or> nameParts_match (Split CHR ''/'' (Key n)) nameParts)
      \<and> Unmarshal_Service (Value n) Service_zero = None)"

subsection \<open>The path codec\<close>

text \<open>
  \<open>dns.SplitDomainName\<close> of the library \<open>miekg/dns\<close>: the labels of a name, without the
  terminal dot; the root and the empty name have none. Escaped dots are not modelled.
\<close>

definition SplitDomainName :: "string \<Rightarrow> string list" where
  "SplitDomainName s =
     (if s = [] \<or> s = ''.'' then [] else Split CHR ''.'' (TrimSuffix s ''.''))"

text \<open>
  Modelled from the spec: \<open>msg.Path\<close> and \<open>msg.PathWithWildcard\<close> belong to the package
  \<open>msg\<close>, which is not among the sources. The spec's path codec: the labels in lower
  case and in reverse order under the fixed prefix, \<open>a.b.c.example.com\<close> giving
  \<open>/<prefix>/com/example/c/b/a\<close>, the terminal dot stripped; a name with the label
  \<open>*\<close> gives the path up to but excluding \<open>*\<close>, and \<open>star = true\<close>.
\<close>

definition path_labels :: "string \<Rightarrow> string list" where
  "path_labels s = rev (map (map to_lower) (SplitDomainName s))"

definition path_of :: "string \<Rightarrow> string list \<Rightarrow> string" where
  "path_of prefix l = ''/'' @ prefix @ concat (map (\<lambda>k. ''/'' @ k) l)"

definition Path :: "string \<Rightarrow> string \<Rightarrow> string" where
  "Path s prefix = path_of prefix (path_labels s)"

definition PathWithWildcard :: "string \<Rightarrow> string \<Rightarrow> string \<times> bool" where
  "PathWithWildcard s prefix =
     (let l = path_labels s in
      if ''*'' \<in> set l then (path_of prefix (takeWhile (\<lambda>k. k \<noteq> ''*'') l), True)
      else (path_of prefix l, False))"

subsection \<open>\<open>Records\<close>\<close>

definition get :: "etcd_store \<Rightarrow> string \<Rightarrow> bool \<Rightarrow> error + KeyValue list" where
  "get st path recursive =
     (if recursive then
        (let path1 = (if \<not> HasSuffix path ''/'' then path @ ''/'' else path) in
         case Client_Get st path1 True of
           Inl err \<Rightarrow> Inl err
         | Inr r \<Rightarrow>
             if length r = 0 then
               (case Client_Get st (TrimSuffix path1 ''/'') False of
                  Inl err \<Rightarrow> Inl err
                | Inr r' \<Rightarrow> if length r' = 0 then Inl errKeyNotFound else Inr r')
             else Inr r)
      else
        (case Client_Get st path False of
           Inl err \<Rightarrow> Inl err
         | Inr r \<Rightarrow> if length r = 0 then Inl errKeyNotFound else Inr r))"

definition pathExist :: "ETCD \<Rightarrow> etcd_store \<Rightarrow> string list \<Rightarrow> bool" where
  "pathExist e st ss =
     (case Client_Get st (fst (PathWithWildcard (strings_Join ss ''.'') (PathPrefix e))) True of
        Inl err \<Rightarrow> False
      | Inr r \<Rightarrow> length r > 0)"

text \<open>
  The rewriting of the name under \<open>WildcardBound\<close>. The comparisons and the subtraction
  are those of \<open>int8\<close>; \<open>temp[start:]\<close> panics when \<open>start\<close> is outside the slice.
\<close>

definition wildcard_name :: "ETCD \<Rightarrow> etcd_store \<Rightarrow> string \<Rightarrow> 16 word \<Rightarrow> error + string" where
  "wildcard_name e st name qType =
     (if 0 < sint (WildcardBound e) \<and> qType \<noteq> TypeTXT then
        (let temp = SplitDomainName name in
         if sint (WildcardBound e) < sint (of_nat (length temp) :: 8 word) \<and> \<not> pathExist e st temp
         then
           (let start = (of_nat (length temp) :: 8 word) - WildcardBound e in
            if sint start < 0 \<or> int (length temp) < sint start then Inl errPanic
            else Inr (''*.'' @ strings_Join (drop (nat (sint start)) temp) ''.''))
         else Inr name)
      else Inr name)"

definition Records :: "ETCD \<Rightarrow> etcd_store \<Rightarrow> string \<Rightarrow> 16 word \<Rightarrow> bool \<Rightarrow> error + Service list" where
  "Records e st qname qType exact =
     (if list_ex (\<lambda>zone. HasPrefix qname zone) (Zones e) then Inr []
      else
        (case wildcard_name e st qname qType of
           Inl err \<Rightarrow> Inl err
         | Inr name \<Rightarrow>
             (let (path, star) = PathWithWildcard name (PathPrefix e) in
              case get st path (\<not> exact) of
                Inl err \<Rightarrow> Inl err
              | Inr r \<Rightarrow>
                  (let segments = Split CHR ''/'' (Path name (PathPrefix e)) in
                   case filterKvs e r segments qType of
                     Inl err \<Rightarrow> Inl err
                   | Inr kvs \<Rightarrow> loopNodes kvs segments star qType))))"

section \<open>The key/value stores (package keyvalue)\<close>

subsection \<open>Association lists\<close>

text \<open>
  Go maps, directories and the objects of a cluster are association lists with one
  entry for a key: \<open>map_of\<close> looks a key up, \<open>put\<close> stores a value (in place when the
  key is there, at the end otherwise), \<open>remove\<close> deletes a key.
\<close>

fun put :: "'k \<Rightarrow> 'v \<Rightarrow> ('k \<times> 'v) list \<Rightarrow> ('k \<times> 'v) list" where
  "put k v [] = [(k, v)]"
| "put k v (e # m) = (if fst e = k then (k, v) # m else e # put k v m)"

definition remove :: "'k \<Rightarrow> ('k \<times> 'v) list \<Rightarrow> ('k \<times> 'v) list" where
  "remove k m = filter (\<lambda>e. fst e \<noteq> k) m"

subsection \<open>Paths\<close>

text \<open>
  \<open>path.Join\<close> of Go joins its arguments, from the first non-empty one on, with slashes
  and cleans the result (\<open>path.Clean\<close>): empty elements and \<open>.\<close> elements go, an
  inner \<open>..\<close> removes the element before it, a \<open>..\<close> at the start of a rooted path goes.
  The cleaned path is kept as its elements together with whether it is rooted: \<open>.\<close> is
  \<open>(False, [])\<close>, \<open>/\<close> is \<open>(True, [])\<close> and \<open>a/b\<close> is \<open>(False, [a, b])\<close>. \<open>None\<close> is
  the empty string, which \<open>path.Join\<close> returns when all its arguments are empty.
\<close>

type_synonym fpath = "bool \<times> string list"

fun clean_elems :: "bool \<Rightarrow> string list \<Rightarrow> string list \<Rightarrow> string list" where
  "clean_elems rooted [] out = out"
| "clean_elems rooted (c # cs) out =
     (if c = [] \<or> c = ''.'' then clean_elems rooted cs out
      else if c = ''..'' then
        (if out \<noteq> [] \<and> last out \<noteq> ''..'' then clean_elems rooted cs (butlast out)
         else if rooted then clean_elems rooted cs out
         else clean_elems rooted cs (out @ [''..'']))
      else clean_elems rooted cs (out @ [c]))"

definition path_Clean :: "string \<Rightarrow> fpath" where
  "path_Clean s = (HasPrefix s ''/'', clean_elems (HasPrefix s ''/'') (Split CHR ''/'' s) [])"

definition path_Join :: "string list \<Rightarrow> fpath option" where
  "path_Join elem =
     (case dropWhile (\<lambda>e. e = []) elem of
        [] \<Rightarrow> None
      | es \<Rightarrow> Some (path_Clean (strings_Join es ''/'')))"

subsection \<open>The file system\<close>

text \<open>
  The state of the file system that the store reads and writes: the directories, and
  the regular files with their contents, each under its cleaned path. The working
  directory, the root and their parents (the paths of \<open>..\<close> elements only) always
  exist. A path names a file, a directory, nothing (\<open>ENOENT\<close>), or it runs through a
  regular file (\<open>ENOTDIR\<close>). Symbolic links, permissions and I/O failures are not
  modelled.
\<close>

record disk =
  dirs :: "fpath list"
  files :: "(fpath \<times> string) list"

datatype node = File string | Dir | NoEnt | NotDir

definition is_dir :: "disk \<Rightarrow> fpath \<Rightarrow> bool" where
  "is_dir d p = (list_all (\<lambda>c. c = ''..'') (snd p) \<or> p \<in> set (dirs d))"

definition through_file :: "disk \<Rightarrow> fpath \<Rightarrow> bool" where
  "through_file d p =
     list_ex (\<lambda>k. map_of (files d) (fst p, take k (snd p)) \<noteq> None) [0..<length (snd p)]"

definition stat :: "disk \<Rightarrow> fpath option \<Rightarrow> node" where
  "stat d filename =
     (case filename of
        None \<Rightarrow> NoEnt
      | Some p \<Rightarrow>
          (case map_of (files d) p of
             Some c \<Rightarrow> File c
           | None \<Rightarrow>
               if is_dir d p then Dir
               else if through_file d p then NotDir
               else NoEnt))"

definition parent :: "fpath \<Rightarrow> fpath" where
  "parent p = (fst p, butlast (snd p))"

text \<open>
  \<open>os.OpenFile\<close> with \<open>O_RDWR|O_CREATE\<close>, and \<open>O_EXCL\<close> when \<open>excl\<close>: the contents of
  the file it opens (empty when it creates the file), or the error.
\<close>

definition OpenFile :: "disk \<Rightarrow> fpath option \<Rightarrow> bool \<Rightarrow> error + string" where
  "OpenFile d filename excl =
     (case stat d filename of
        File c \<Rightarrow> if excl then Inl errExist else Inr c
      | Dir \<Rightarrow> if excl then Inl errExist else Inl errIsDir
      | NotDir \<Rightarrow> Inl errNotDir
      | NoEnt \<Rightarrow>
          (case filename of
             None \<Rightarrow> Inl errNotExist
           | Some p \<Rightarrow>
               (case stat d (Some (parent p)) of
                  Dir \<Rightarrow> Inr []
                | NoEnt \<Rightarrow> Inl errNotExist
                | _ \<Rightarrow> Inl errNotDir)))"

text \<open>
  \<open>f.Write(j)\<close> on a file just opened writes at offset 0: the bytes of \<open>j\<close> replace the
  first bytes of the file, and what the file held beyond them stays.
\<close>

definition Write :: "string \<Rightarrow> string \<Rightarrow> string" where
  "Write c j = j @ drop (length j) c"

text \<open>\<open>ioutil.ReadDir\<close>: the names in a directory, sorted.\<close>

definition ReadDir :: "disk \<Rightarrow> fpath option \<Rightarrow> error + string list" where
  "ReadDir d dirname =
     (case stat d dirname of
        Dir \<Rightarrow>
          Inr (sort (remdups (map (\<lambda>p. last (snd p))
                 (filter (\<lambda>p. snd p \<noteq> [] \<and> last (snd p) \<noteq> ''..'' \<and> Some (parent p) = dirname)
                    (map fst (files d) @ dirs d)))))
      | File c \<Rightarrow> Inl errNotDir
      | NotDir \<Rightarrow> Inl errNotDir
      | NoEnt \<Rightarrow> Inl errNotExist)"

subsection \<open>The store on the file system (package filesystem)\<close>

record Filesystem =
  path :: string

text \<open>
  \<open>writeValue\<close>: the value \<open>metadata\<close> is given as the JSON document that
  \<open>json.Marshal\<close> makes of it. The result is the error, if any, and the file system
  after the call.
\<close>

definition Filesystem_writeValue ::
  "Filesystem \<Rightarrow> disk \<Rightarrow> string \<Rightarrow> string \<Rightarrow> json \<Rightarrow> bool \<Rightarrow> error option \<times> disk" where
  "Filesystem_writeValue fs d name valueType metadata update =
     (let filename = path_Join [path fs, valueType, name] in
      case OpenFile d filename (\<not> update) of
        Inl err \<Rightarrow> (Some err, d)
      | Inr c \<Rightarrow>
          (case filename of
             None \<Rightarrow> (Some errNotExist, d)
           | Some p \<Rightarrow> (None, d\<lparr>files := put p (Write c (json_text metadata)) (files d)\<rparr>)))"

definition Filesystem_SetValue ::
  "Filesystem \<Rightarrow> disk \<Rightarrow> string \<Rightarrow> string \<Rightarrow> json \<Rightarrow> error option \<times> disk" where
  "Filesystem_SetValue fs d name valueType metadata =
     Filesystem_writeValue fs d name valueType metadata False"

definition Filesystem_UpdateValue ::
  "Filesystem \<Rightarrow> disk \<Rightarrow> string \<Rightarrow> string \<Rightarrow> json \<Rightarrow> error option \<times> disk" where
  "Filesystem_UpdateValue fs d name valueType metadata =
     Filesystem_writeValue fs d name valueType metadata True"

text \<open>
  \<open>json.Unmarshal(data, &metadata)\<close>, where \<open>metadata\<close> is the \<open>interface{}\<close> argument
  of \<open>GetValue\<close>: the argument holds a pointer, \<open>Some x\<close> for a pointer to \<open>x\<close> and \<open>None\<close>
  for a nil pointer, and \<open>dec\<close> stores a document in a value of the pointer's type. A
  nil pointer cannot be stored through: Go then decodes into the local variable
  \<open>metadata\<close> itself, which succeeds on every well-formed document and leaves the
  caller's pointer nil.
\<close>

definition Unmarshal :: "(json \<Rightarrow> 'a \<Rightarrow> 'a option) \<Rightarrow> string \<Rightarrow> 'a option \<Rightarrow> error + 'a option" where
  "Unmarshal dec data metadata =
     (case json_parse data of
        None \<Rightarrow> Inl errSyntax
      | Some j \<Rightarrow>
          (case metadata of
             None \<Rightarrow> Inr None
           | Some x \<Rightarrow> (case dec j x of None \<Rightarrow> Inl errType | Some x' \<Rightarrow> Inr (Some x'))))"

text \<open>
  \<open>GetValue\<close> returns the string and the error; the third component is the caller's
  \<open>metadata\<close> after the call. \<open>os.Open\<close> succeeds on a directory, and reading it fails.
\<close>

definition Filesystem_GetValue ::
  "(json \<Rightarrow> 'a \<Rightarrow> 'a option) \<Rightarrow> Filesystem \<Rightarrow> disk \<Rightarrow> string \<Rightarrow> string \<Rightarrow> 'a option
     \<Rightarrow> string \<times> error option \<times> 'a option" where
  "Filesystem_GetValue dec fs d name valueType metadata =
     (let filename = path_Join [path fs, valueType, name] in
      case stat d filename of
        NoEnt \<Rightarrow> ([], None, metadata)
      | NotDir \<Rightarrow> ([], Some errNotDir, metadata)
      | Dir \<Rightarrow> ([], Some errIsDir, metadata)
      | File data \<Rightarrow>
          (case Unmarshal dec data metadata of
             Inl err \<Rightarrow> ([], Some err, metadata)
           | Inr m \<Rightarrow> (data, None, m)))"

text \<open>
  \<open>fileExists\<close>: \<open>os.Stat\<close> returns a nil \<open>FileInfo\<close> with an error that is not
  \<open>IsNotExist\<close> when the path runs through a regular file, and \<open>info.IsDir()\<close> panics.
\<close>

definition fileExists :: "disk \<Rightarrow> fpath option \<Rightarrow> error + bool" where
  "fileExists d filename =
     (case stat d filename of
        NoEnt \<Rightarrow> Inr False
      | NotDir \<Rightarrow> Inl errPanic
      | Dir \<Rightarrow> Inr False
      | File c \<Rightarrow> Inr True)"

definition Filesystem_DeleteValue ::
  "Filesystem \<Rightarrow> disk \<Rightarrow> string \<Rightarrow> string \<Rightarrow> error option \<times> disk" where
  "Filesystem_DeleteValue fs d name valueType =
     (let filename = path_Join [path fs, valueType, name] in
      case fileExists d filename of
        Inl err \<Rightarrow> (Some err, d)
      | Inr False \<Rightarrow> (None, d)
      | Inr True \<Rightarrow>
          (case filename of
             None \<Rightarrow> (Some errNotExist, d)
           | Some p \<Rightarrow> (None, d\<lparr>files := remove p (files d)\<rparr>)))"

definition Filesystem_ListValues :: "Filesystem \<Rightarrow> disk \<Rightarrow> string \<Rightarrow> error + string list" where
  "Filesystem_ListValues fs d valueType = ReadDir d (path_Join [path fs, valueType])"

text \<open>
  The record \<open>struct{ CreatedOn int64 }\<close> that \<open>GetExpiredValues\<close> decodes into, and the
  loop over the names: the result is the list \<open>expired\<close> and the error.
\<close>

definition CreatedOn_field :: "string \<Rightarrow> json \<Rightarrow> int \<Rightarrow> int option" where
  "CreatedOn_field k v r = (if key_is k ''CreatedOn'' then as_int64 v r else Some r)"

fun Filesystem_expired_loop ::
  "Filesystem \<Rightarrow> disk \<Rightarrow> string \<Rightarrow> int \<Rightarrow> string list \<Rightarrow> string list
     \<Rightarrow> string list \<times> error option" where
  "Filesystem_expired_loop fs d valueType t [] expired = (expired, None)"
| "Filesystem_expired_loop fs d valueType t (file # rest) expired =
     (case Filesystem_GetValue (decode_struct CreatedOn_field) fs d file valueType (Some 0) of
        (s, Some err, m) \<Rightarrow> (expired, Some err)
      | (s, None, m) \<Rightarrow>
          if (case m of Some r \<Rightarrow> r | None \<Rightarrow> 0) < t
          then Filesystem_expired_loop fs d valueType t rest (expired @ [file])
          else Filesystem_expired_loop fs d valueType t rest expired)"

definition Filesystem_GetExpiredValues ::
  "Filesystem \<Rightarrow> disk \<Rightarrow> string \<Rightarrow> int \<Rightarrow> string list \<times> error option" where
  "Filesystem_GetExpiredValues fs d valueType t =
     (case ReadDir d (path_Join [path fs, valueType]) of
        Inl err \<Rightarrow> ([], Some err)
      | Inr names \<Rightarrow> Filesystem_expired_loop fs d valueType t names [])"

subsection \<open>The store on config maps (package k8s)\<close>

text \<open>
  The objects of the cluster that the store touches: config maps, each under its
  namespace and name, in the order the API server lists them. A call of the client
  fails when the cluster cannot be reached; \<open>Get\<close>, \<open>Update\<close> and \<open>Delete\<close> of an object
  that is not there fail with \<open>NotFound\<close>, \<open>Create\<close> of one that is there with
  \<open>AlreadyExists\<close>. \<open>List\<close> returns the config maps of a namespace that carry a label.
\<close>

record ConfigMap =
  Name :: string
  Namespace :: string
  Annotations :: "(string \<times> string) list"
  Labels :: "(string \<times> string) list"
  Data :: "(string \<times> string) list"

record cluster =
  objects :: "((string \<times> string) \<times> ConfigMap) list"
  up :: bool

record K8sStore =
  namespace :: string

definition index :: "(string \<times> string) list \<Rightarrow> string \<Rightarrow> string" where
  "index m k = (case map_of m k of None \<Rightarrow> [] | Some v \<Rightarrow> v)"

definition k8s_Get :: "cluster \<Rightarrow> string \<times> string \<Rightarrow> error + ConfigMap" where
  "k8s_Get c key =
     (if \<not> up c then Inl errUnreachable
      else (case map_of (objects c) key of None \<Rightarrow> Inl errNotFound | Some cm \<Rightarrow> Inr cm))"

definition k8s_Create :: "cluster \<Rightarrow> ConfigMap \<Rightarrow> error option \<times> cluster" where
  "k8s_Create c cm =
     (if \<not> up c then (Some errUnreachable, c)
      else if map_of (objects c) (Namespace cm, Name cm) \<noteq> None then (Some errAlreadyExists, c)
      else (None, c\<lparr>objects := put (Namespace cm, Name cm) cm (objects c)\<rparr>))"

definition k8s_Update :: "cluster \<Rightarrow> ConfigMap \<Rightarrow> error option \<times> cluster" where
  "k8s_Update c cm =
     (if \<not> up c then (Some errUnreachable, c)
      else if map_of (objects c) (Namespace cm, Name cm) = None then (Some errNotFound, c)
      else (None, c\<lparr>objects := put (Namespace cm, Name cm) cm (objects c)\<rparr>))"

definition k8s_Delete :: "cluster \<Rightarrow> ConfigMap \<Rightarrow> error option \<times> cluster" where
  "k8s_Delete c cm =
     (if \<not> up c then (Some errUnreachable, c)
      else if map_of (objects c) (Namespace cm, Name cm) = None then (Some errNotFound, c)
      else (None, c\<lparr>objects := remove (Namespace cm, Name cm) (objects c)\<rparr>))"

definition k8s_List :: "cluster \<Rightarrow> string \<Rightarrow> string \<Rightarrow> string \<Rightarrow> error + ConfigMap list" where
  "k8s_List c ns label v =
     (if \<not> up c then Inl errUnreachable
      else Inr (map snd (filter (\<lambda>e. fst (fst e) = ns \<and> map_of (Labels (snd e)) label = Some v)
                  (objects c))))"

text \<open>
  \<open>generateName\<close>: \<open>md5hex\<close> stands for \<open>fmt.Sprintf("%x", md5.Sum([]byte(name)))\<close>, the
  MD5 digest of the name in hexadecimal, which is always 32 characters long. The
  digest is a parameter of the model.
\<close>

definition generateName :: "(string \<Rightarrow> string) \<Rightarrow> string \<Rightarrow> string \<Rightarrow> string" where
  "generateName md5hex name valueType = strings_Join [md5hex name, valueType] ''-''"

text \<open>
  \<open>writeValue\<close>. The argument \<open>update\<close> is not read by the function, as in the source.
\<close>

definition K8sStore_fill :: "string \<Rightarrow> string \<Rightarrow> json \<Rightarrow> ConfigMap \<Rightarrow> ConfigMap" where
  "K8sStore_fill name valueType metadata cm =
     (let cm1 = cm\<lparr>Annotations := put ''rdns-name'' name (Annotations cm)\<rparr>;
          cm2 = cm1\<lparr>Labels := put ''rnds-value'' ''true''
                               (put ''rdns-value-type'' valueType (Labels cm1))\<rparr>
      in cm2\<lparr>Data := put ''data'' (json_text metadata) (Data cm2)\<rparr>)"

definition K8sStore_writeValue ::
  "(string \<Rightarrow> string) \<Rightarrow> K8sStore \<Rightarrow> cluster \<Rightarrow> string \<Rightarrow> string \<Rightarrow> json \<Rightarrow> bool
     \<Rightarrow> error option \<times> cluster" where
  "K8sStore_writeValue md5hex s c name valueType metadata update =
     (let rname = generateName md5hex name valueType;
          cm = \<lparr>Name = rname, Namespace = namespace s, Annotations = [], Labels = [], Data = []\<rparr>
      in case k8s_Get c (Namespace cm, Name cm) of
           Inl err \<Rightarrow>
             if err \<noteq> errNotFound then (Some err, c)
             else k8s_Create c (K8sStore_fill name valueType metadata cm)
         | Inr cm' \<Rightarrow> k8s_Update c (K8sStore_fill name valueType metadata cm'))"

definition K8sStore_SetValue ::
  "(string \<Rightarrow> string) \<Rightarrow> K8sStore \<Rightarrow> cluster \<Rightarrow> string \<Rightarrow> string \<Rightarrow> json
     \<Rightarrow> error option \<times> cluster" where
  "K8sStore_SetValue md5hex s c name valueType metadata =
     K8sStore_writeValue md5hex s c name valueType metadata False"

definition K8sStore_UpdateValue ::
  "(string \<Rightarrow> string) \<Rightarrow> K8sStore \<Rightarrow> cluster \<Rightarrow> string \<Rightarrow> string \<Rightarrow> json
     \<Rightarrow> error option \<times> cluster" where
  "K8sStore_UpdateValue md5hex s c name valueType metadata =
     K8sStore_writeValue md5hex s c name valueType metadata True"

definition K8sStore_DeleteValue ::
  "(string \<Rightarrow> string) \<Rightarrow> K8sStore \<Rightarrow> cluster \<Rightarrow> string \<Rightarrow> string \<Rightarrow> error option \<times> cluster" where
  "K8sStore_DeleteValue md5hex s c name valueType =
     (case k8s_Get c (namespace s, generateName md5hex name valueType) of
        Inl err \<Rightarrow> if err = errNotFound then (None, c) else (Some err, c)
      | Inr cm \<Rightarrow> k8s_Delete c cm)"

definition K8sStore_ListValues :: "K8sStore \<Rightarrow> cluster \<Rightarrow> string \<Rightarrow> error + string list" where
  "K8sStore_ListValues s c valueType =
     (case k8s_List c (namespace s) ''rdns-value-type'' valueType of
        Inl err \<Rightarrow> Inl err
      | Inr items \<Rightarrow> Inr (map (\<lambda>cm. index (Annotations cm) ''rdns-name'') items))"

definition K8sStore_GetValue ::
  "(json \<Rightarrow> 'a \<Rightarrow> 'a option) \<Rightarrow> (string \<Rightarrow> string) \<Rightarrow> K8sStore \<Rightarrow> cluster \<Rightarrow> string \<Rightarrow> string
     \<Rightarrow> 'a option \<Rightarrow> string \<times> error option \<times> 'a option" where
  "K8sStore_GetValue dec md5hex s c name valueType metadata =
     (case k8s_Get c (namespace s, generateName md5hex name valueType) of
        Inl err \<Rightarrow> if err \<noteq> errNotFound then ([], Some err, metadata) else ([], None, metadata)
      | Inr cm \<Rightarrow>
          (case Unmarshal dec (index (Data cm) ''data'') metadata of
             Inl err \<Rightarrow> ([], Some err, metadata)
           | Inr m \<Rightarrow> (index (Data cm) ''data'', None, m)))"

fun K8sStore_expired_loop ::
  "(string \<Rightarrow> string) \<Rightarrow> K8sStore \<Rightarrow> cluster \<Rightarrow> string \<Rightarrow> int \<Rightarrow> string list \<Rightarrow> string list
     \<Rightarrow> string list \<times> error option" where
  "K8sStore_expired_loop md5hex s c valueType t [] expired = (expired, None)"
| "K8sStore_expired_loop md5hex s c valueType t (name # rest) expired =
     (case K8sStore_GetValue (decode_struct CreatedOn_field) md5hex s c name valueType (Some 0) of
        (x, Some err, m) \<Rightarrow> (expired, Some err)
      | (x, None, m) \<Rightarrow>
          if (case m of Some r \<Rightarrow> r | None \<Rightarrow> 0) < t
          then K8sStore_expired_loop md5hex s c valueType t rest (expired @ [name])
          else K8sStore_expired_loop md5hex s c valueType t rest expired)"

definition K8sStore_GetExpiredValues ::
  "(string \<Rightarrow> string) \<Rightarrow> K8sStore \<Rightarrow> cluster \<Rightarrow> string \<Rightarrow> int \<Rightarrow> string list \<times> error option" where
  "K8sStore_GetExpiredValues md5hex s c valueType t =
     (case K8sStore_ListValues s c valueType of
        Inl err \<Rightarrow> ([], Some err)
      | Inr names \<Rightarrow> K8sStore_expired_loop md5hex s c valueType t names [])"

subsection \<open>The typed record store (\<open>KeyValueBackend\<close>)\<close>

definition TokenValueType :: string where
  "TokenValueType = ''token''"

definition FrozenPrefixValueType :: string where
  "FrozenPrefixValueType = ''frozen-prefix''"

definition SubARecordValueType :: string where
  "SubARecordValueType = ''sub-a-record''"

definition ARecordValueType :: string where
  "ARecordValueType = ''a-record''"

definition CNAMERecordValueType :: string where
  "CNAMERecordValueType = ''cname-record''"

definition TXTRecordValueType :: string where
  "TXTRecordValueType = ''txt-record''"

definition ValueTypes :: "string list" where
  "ValueTypes = [FrozenPrefixValueType, SubARecordValueType, ARecordValueType,
     CNAMERecordValueType, TXTRecordValueType, TokenValueType]"

text \<open>
  The interface \<open>KeyValueStore\<close> with its two implementations: a store is the
  \<open>Filesystem\<close> with the file system it works on, or the \<open>K8sStore\<close> with its cluster.
\<close>

datatype KeyValueStore =
    OnFilesystem Filesystem disk
  | OnK8s "string \<Rightarrow> string" K8sStore cluster

definition GetValue ::
  "(json \<Rightarrow> 'a \<Rightarrow> 'a option) \<Rightarrow> KeyValueStore \<Rightarrow> string \<Rightarrow> string \<Rightarrow> 'a option
     \<Rightarrow> string \<times> error option \<times> 'a option" where
  "GetValue dec store name valueType metadata =
     (case store of
        OnFilesystem fs d \<Rightarrow> Filesystem_GetValue dec fs d name valueType metadata
      | OnK8s md5hex s c \<Rightarrow> K8sStore_GetValue dec md5hex s c name valueType metadata)"

definition SetValue ::
  "KeyValueStore \<Rightarrow> string \<Rightarrow> string \<Rightarrow> json \<Rightarrow> error option \<times> KeyValueStore" where
  "SetValue store name valueType metadata =
     (case store of
        OnFilesystem fs d \<Rightarrow>
          (case Filesystem_SetValue fs d name valueType metadata of
             (err, d') \<Rightarrow> (err, OnFilesystem fs d'))
      | OnK8s md5hex s c \<Rightarrow>
          (case K8sStore_SetValue md5hex s c name valueType metadata of
             (err, c') \<Rightarrow> (err, OnK8s md5hex s c')))"

definition UpdateValue ::
  "KeyValueStore \<Rightarrow> string \<Rightarrow> string \<Rightarrow> json \<Rightarrow> error option \<times> KeyValueStore" where
  "UpdateValue store name valueType metadata =
     (case store of
        OnFilesystem fs d \<Rightarrow>
          (case Filesystem_UpdateValue fs d name valueType metadata of
             (err, d') \<Rightarrow> (err, OnFilesystem fs d'))
      | OnK8s md5hex s c \<Rightarrow>
          (case K8sStore_UpdateValue md5hex s c name valueType metadata of
             (err, c') \<Rightarrow> (err, OnK8s md5hex s c')))"

definition DeleteValue ::
  "KeyValueStore \<Rightarrow> string \<Rightarrow> string \<Rightarrow> error option \<times> KeyValueStore" where
  "DeleteValue store name valueType =
     (case store of
        OnFilesystem fs d \<Rightarrow>
          (case Filesystem_DeleteValue fs d name valueType of
             (err, d') \<Rightarrow> (err, OnFilesystem fs d'))
      | OnK8s md5hex s c \<Rightarrow>
          (case K8sStore_DeleteValue md5hex s c name valueType of
             (err, c') \<Rightarrow> (err, OnK8s md5hex s c')))"

definition ListValues :: "KeyValueStore \<Rightarrow> string \<Rightarrow> error + string list" where
  "ListValues store valueType =
     (case store of
        OnFilesystem fs d \<Rightarrow> Filesystem_ListValues fs d valueType
      | OnK8s md5hex s c \<Rightarrow> K8sStore_ListValues s c valueType)"

definition GetExpiredValues :: "KeyValueStore \<Rightarrow> string \<Rightarrow> int \<Rightarrow> string list \<times> error option" where
  "GetExpiredValues store valueType t =
     (case store of
        OnFilesystem fs d \<Rightarrow> Filesystem_GetExpiredValues fs d valueType t
      | OnK8s md5hex s c \<Rightarrow> K8sStore_GetExpiredValues md5hex s c valueType t)"

text \<open>
  A value is stored under a name and a value type when the file of the name exists
  (the path names something), or the config map of the generated name does; a store is
  available when its backend can be reached.
\<close>

definition stored :: "KeyValueStore \<Rightarrow> string \<Rightarrow> string \<Rightarrow> bool" where
  "stored store name valueType =
     (case store of
        OnFilesystem fs d \<Rightarrow> stat d (path_Join [path fs, valueType, name]) \<noteq> NoEnt
      | OnK8s md5hex s c \<Rightarrow>
          map_of (objects c) (namespace s, generateName md5hex name valueType) \<noteq> None)"

definition available :: "KeyValueStore \<Rightarrow> bool" where
  "available store = (case store of OnFilesystem fs d \<Rightarrow> True | OnK8s md5hex s c \<Rightarrow> up c)"

text \<open>
  The records of the package and their JSON documents. Every field is tagged
  \<open>omitempty\<close>: a field with the zero value of its type is left out. The 64-bit
  \<open>CreatedOn\<close> is an integer here; the program only stores and compares it.
\<close>

record FrozenPrefix =
  Token_fp :: string
  CreatedOn_fp :: int

record Token =
  Token :: string
  Fqdn :: string
  CreatedOn :: int

definition omit_string :: "string \<Rightarrow> string \<Rightarrow> (string \<times> json) list" where
  "omit_string k s = (if s = [] then [] else [(k, JStr s)])"

definition omit_int :: "string \<Rightarrow> int \<Rightarrow> (string \<times> json) list" where
  "omit_int k i = (if i = 0 then [] else [(k, JNum i)])"

definition omit_strings :: "string \<Rightarrow> string list \<Rightarrow> (string \<times> json) list" where
  "omit_strings k l = (if l = [] then [] else [(k, JArr (map JStr l))])"

definition FrozenPrefix_json :: "FrozenPrefix \<Rightarrow> json" where
  "FrozenPrefix_json m = JObj (omit_string ''token'' (Token_fp m) @ omit_int ''createdOn'' (CreatedOn_fp m))"

definition FrozenPrefix_field :: "string \<Rightarrow> json \<Rightarrow> FrozenPrefix \<Rightarrow> FrozenPrefix option" where
  "FrozenPrefix_field k v m =
     (if key_is k ''token'' then map_option (\<lambda>x. m\<lparr>Token_fp := x\<rparr>) (as_string v (Token_fp m))
      else if key_is k ''createdOn''
        then map_option (\<lambda>x. m\<lparr>CreatedOn_fp := x\<rparr>) (as_int64 v (CreatedOn_fp m))
      else Some m)"

definition Token_json :: "Token \<Rightarrow> json" where
  "Token_json t =
     JObj (omit_string ''token'' (Token t) @ omit_string ''fqdn'' (Fqdn t)
           @ omit_int ''createdOn'' (CreatedOn t))"

definition Token_field :: "string \<Rightarrow> json \<Rightarrow> Token \<Rightarrow> Token option" where
  "Token_field k v t =
     (if key_is k ''token'' then map_option (\<lambda>x. t\<lparr>Token := x\<rparr>) (as_string v (Token t))
      else if key_is k ''fqdn'' then map_option (\<lambda>x. t\<lparr>Fqdn := x\<rparr>) (as_string v (Fqdn t))
      else if key_is k ''createdOn'' then map_option (\<lambda>x. t\<lparr>CreatedOn := x\<rparr>) (as_int64 v (CreatedOn t))
      else Some t)"

definition Token_zero :: Token where
  "Token_zero = \<lparr>Token = [], Fqdn = [], CreatedOn = 0\<rparr>"

text \<open>
  Modelled from the spec: the package \<open>model\<close> is not among the sources. \<open>model.Token\<close>
  has the fields that \<open>QueryToken\<close> fills; a sub-A record is \<open>{fqdn, hosts[], tid, text?}\<close>
  and a TXT record \<open>{fqdn, text, tid}\<close>, stored under these JSON names.
\<close>

record model_Token =
  ID_m :: int
  Token_m :: string
  Fqdn_m :: string
  CreatedOn_m :: int

record SubRecordA =
  Fqdn_a :: string
  Hosts_a :: "string list"
  TID_a :: int
  Text_a :: string

record RecordTXT =
  Fqdn_x :: string
  Text_x :: string
  TID_x :: int

definition SubRecordA_zero :: SubRecordA where
  "SubRecordA_zero = \<lparr>Fqdn_a = [], Hosts_a = [], TID_a = 0, Text_a = []\<rparr>"

definition SubRecordA_json :: "SubRecordA \<Rightarrow> json" where
  "SubRecordA_json a =
     JObj (omit_string ''fqdn'' (Fqdn_a a) @ omit_strings ''hosts'' (Hosts_a a)
           @ omit_int ''tid'' (TID_a a) @ omit_string ''text'' (Text_a a))"

definition SubRecordA_field :: "string \<Rightarrow> json \<Rightarrow> SubRecordA \<Rightarrow> SubRecordA option" where
  "SubRecordA_field k v a =
     (if key_is k ''fqdn'' then map_option (\<lambda>x. a\<lparr>Fqdn_a := x\<rparr>) (as_string v (Fqdn_a a))
      else if key_is k ''hosts'' then map_option (\<lambda>x. a\<lparr>Hosts_a := x\<rparr>) (as_strings v (Hosts_a a))
      else if key_is k ''tid'' then map_option (\<lambda>x. a\<lparr>TID_a := x\<rparr>) (as_int64 v (TID_a a))
      else if key_is k ''text'' then map_option (\<lambda>x. a\<lparr>Text_a := x\<rparr>) (as_string v (Text_a a))
      else Some a)"

definition RecordTXT_zero :: RecordTXT where
  "RecordTXT_zero = \<lparr>Fqdn_x = [], Text_x = [], TID_x = 0\<rparr>"

definition RecordTXT_json :: "RecordTXT \<Rightarrow> json" where
  "RecordTXT_json a =
     JObj (omit_string ''fqdn'' (Fqdn_x a) @ omit_string ''text'' (Text_x a)
           @ omit_int ''tid'' (TID_x a))"

definition RecordTXT_field :: "string \<Rightarrow> json \<Rightarrow> RecordTXT \<Rightarrow> RecordTXT option" where
  "RecordTXT_field k v a =
     (if key_is k ''fqdn'' then map_option (\<lambda>x. a\<lparr>Fqdn_x := x\<rparr>) (as_string v (Fqdn_x a))
      else if key_is k ''text'' then map_option (\<lambda>x. a\<lparr>Text_x := x\<rparr>) (as_string v (Text_x a))
      else if key_is k ''tid'' then map_option (\<lambda>x. a\<lparr>TID_x := x\<rparr>) (as_int64 v (TID_x a))
      else Some a)"

text \<open>
  The operations. \<open>now\<close> is \<open>time.Now().UnixNano()\<close> at the call; a result is the error,
  if any, with the store after the call, or a sum for the calls that only read.
\<close>

definition InsertFrozen :: "KeyValueStore \<Rightarrow> string \<Rightarrow> int \<Rightarrow> error option \<times> KeyValueStore" where
  "InsertFrozen store prefix now =
     SetValue store prefix FrozenPrefixValueType
       (FrozenPrefix_json \<lparr>Token_fp = [], CreatedOn_fp = now\<rparr>)"

text \<open>
  \<open>QueryFrozen\<close> and \<open>RenewFrozen\<close> declare \<open>var metadata *FrozenPrefix\<close>, a nil pointer,
  and pass it to \<open>GetValue\<close>; the test \<open>metadata == nil\<close> reads the same variable after
  the call.
\<close>

definition QueryFrozen :: "KeyValueStore \<Rightarrow> string \<Rightarrow> error + string" where
  "QueryFrozen store prefix =
     (case GetValue (decode_struct FrozenPrefix_field) store prefix FrozenPrefixValueType None of
        (s, Some err, metadata) \<Rightarrow> Inl err
      | (s, None, metadata) \<Rightarrow>
          (case metadata of None \<Rightarrow> Inr [] | Some m \<Rightarrow> Inr prefix))"

definition RenewFrozen :: "KeyValueStore \<Rightarrow> string \<Rightarrow> int \<Rightarrow> error option \<times> KeyValueStore" where
  "RenewFrozen store prefix now =
     (case GetValue (decode_struct FrozenPrefix_field) store prefix FrozenPrefixValueType None of
        (s, Some err, metadata) \<Rightarrow> (Some err, store)
      | (s, None, metadata) \<Rightarrow>
          (case metadata of
             None \<Rightarrow> (None, store)
           | Some m \<Rightarrow>
               SetValue store prefix FrozenPrefixValueType
                 (FrozenPrefix_json (m\<lparr>CreatedOn_fp := now\<rparr>))))"

definition InsertToken ::
  "KeyValueStore \<Rightarrow> string \<Rightarrow> string \<Rightarrow> int \<Rightarrow> int \<times> error option \<times> KeyValueStore" where
  "InsertToken store token name now =
     (let t = \<lparr>Token = token, Fqdn = name, CreatedOn = now\<rparr> in
      case SetValue store name TokenValueType (Token_json t) of
        (err, store') \<Rightarrow> (CreatedOn t, err, store'))"

definition QueryToken :: "KeyValueStore \<Rightarrow> string \<Rightarrow> error + model_Token" where
  "QueryToken store name =
     (case GetValue (decode_struct Token_field) store name TokenValueType (Some Token_zero) of
        (s, Some err, metadata) \<Rightarrow> Inl err
      | (s, None, metadata) \<Rightarrow>
          (let token = (case metadata of Some t \<Rightarrow> t | None \<Rightarrow> Token_zero) in
           Inr \<lparr>ID_m = CreatedOn token, Token_m = Token token, Fqdn_m = Fqdn token,
                CreatedOn_m = CreatedOn token\<rparr>))"

definition RenewToken ::
  "KeyValueStore \<Rightarrow> string \<Rightarrow> int \<Rightarrow> (int \<times> int \<times> error option) \<times> KeyValueStore" where
  "RenewToken store name now =
     (case QueryToken store name of
        Inl err \<Rightarrow> ((0, 0, Some err), store)
      | Inr to \<Rightarrow>
          (let t = \<lparr>Token = Token_m to, Fqdn = Fqdn_m to, CreatedOn = now\<rparr> in
           case UpdateValue store name TokenValueType (Token_json t) of
             (Some err, store') \<Rightarrow> ((0, 0, Some err), store')
           | (None, store') \<Rightarrow> ((CreatedOn t, CreatedOn t, None), store')))"

definition InsertSubA :: "KeyValueStore \<Rightarrow> SubRecordA \<Rightarrow> int \<times> error option \<times> KeyValueStore" where
  "InsertSubA store a =
     (case SetValue store (Fqdn_a a) SubARecordValueType (SubRecordA_json a) of
        (err, store') \<Rightarrow> (0, err, store'))"

definition QuerySubA :: "KeyValueStore \<Rightarrow> string \<Rightarrow> error + SubRecordA" where
  "QuerySubA store name =
     (case GetValue (decode_struct SubRecordA_field) store name SubARecordValueType
             (Some SubRecordA_zero) of
        (s, Some err, metadata) \<Rightarrow> Inl err
      | (s, None, metadata) \<Rightarrow> Inr (case metadata of Some r \<Rightarrow> r | None \<Rightarrow> SubRecordA_zero))"

fun ListSubA_loop :: "KeyValueStore \<Rightarrow> int \<Rightarrow> string list \<Rightarrow> SubRecordA list \<Rightarrow> error + SubRecordA list" where
  "ListSubA_loop store tid [] rs = Inr rs"
| "ListSubA_loop store tid (name # names) rs =
     (case QuerySubA store name of
        Inl err \<Rightarrow> Inl err
      | Inr r \<Rightarrow> ListSubA_loop store tid names (rs @ [r]))"

definition ListSubA :: "KeyValueStore \<Rightarrow> int \<Rightarrow> error + SubRecordA list" where
  "ListSubA store tid =
     (case ListValues store SubARecordValueType of
        Inl err \<Rightarrow> Inl err
      | Inr names \<Rightarrow> ListSubA_loop store tid names [])"

definition InsertTXT :: "KeyValueStore \<Rightarrow> RecordTXT \<Rightarrow> int \<times> error option \<times> KeyValueStore" where
  "InsertTXT store a =
     (case SetValue store (Fqdn_x a) TXTRecordValueType (RecordTXT_json a) of
        (err, store') \<Rightarrow> (0, err, store'))"

definition QueryTXT :: "KeyValueStore \<Rightarrow> string \<Rightarrow> error + RecordTXT" where
  "QueryTXT store name =
     (case GetValue (decode_struct RecordTXT_field) store name TXTRecordValueType
             (Some RecordTXT_zero) of
        (s, Some err, metadata) \<Rightarrow> Inl err
      | (s, None, metadata) \<Rightarrow> Inr (case metadata of Some r \<Rightarrow> r | None \<Rightarrow> RecordTXT_zero))"

fun QueryExpiredTXTs_loop ::
  "KeyValueStore \<Rightarrow> int \<Rightarrow> string list \<Rightarrow> RecordTXT list \<Rightarrow> error + RecordTXT list" where
  "QueryExpiredTXTs_loop store tid [] rs = Inr rs"
| "QueryExpiredTXTs_loop store tid (name # names) rs =
     (case QueryTXT store name of
        Inl err \<Rightarrow> Inl err
      | Inr r \<Rightarrow>
          if TID_x r = tid then QueryExpiredTXTs_loop store tid names (rs @ [r])
          else QueryExpiredTXTs_loop store tid names rs)"

definition QueryExpiredTXTs :: "KeyValueStore \<Rightarrow> int \<Rightarrow> error + RecordTXT list" where
  "QueryExpiredTXTs store tid =
     (case ListValues store TXTRecordValueType of
        Inl err \<Rightarrow> Inl err
      | Inr names \<Rightarrow> QueryExpiredTXTs_loop store tid names [])"

subsection \<open>Mutations and well-formed stores\<close>

text \<open>
  The three mutations of the store contract under a value type, and the store after
  one of them.
\<close>

datatype mutation = Set_of string json | Update_of string json | Delete_of string

fun mutation_name :: "mutation \<Rightarrow> string" where
  "mutation_name (Set_of name v) = name"
| "mutation_name (Update_of name v) = name"
| "mutation_name (Delete_of name) = name"

fun mutate :: "KeyValueStore \<Rightarrow> string \<Rightarrow> mutation \<Rightarrow> KeyValueStore" where
  "mutate store valueType (Set_of name v) = snd (SetValue store name valueType v)"
| "mutate store valueType (Update_of name v) = snd (UpdateValue store name valueType v)"
| "mutate store valueType (Delete_of name) = snd (DeleteValue store name valueType)"

text \<open>
  An element of a cleaned path is not empty, holds no slash and is not \<open>.\<close>; a single
  path element is moreover not \<open>..\<close>. On the file system a name is a file name when it
  is a single path element; the config map store takes every name.
\<close>

definition clean_elem :: "string \<Rightarrow> bool" where
  "clean_elem c = (c \<noteq> [] \<and> CHR ''/'' \<notin> set c \<and> c \<noteq> ''.'')"

definition elem_ok :: "string \<Rightarrow> bool" where
  "elem_ok c = (clean_elem c \<and> c \<noteq> ''..'')"

definition name_ok :: "KeyValueStore \<Rightarrow> string \<Rightarrow> bool" where
  "name_ok store name = (case store of OnFilesystem fs d \<Rightarrow> elem_ok name | OnK8s md5hex s c \<Rightarrow> True)"

text \<open>
  A file system whose paths are cleaned paths. A cluster whose config maps are those the store writes: each
  stands under its own namespace and name, and its label \<open>rdns-value-type\<close> is the value
  type that follows the 32 characters of the digest and the hyphen in its name. The
  digest \<open>md5hex\<close> always has 32 characters.
\<close>

definition wf_disk :: "disk \<Rightarrow> bool" where
  "wf_disk d = list_all (\<lambda>p. list_all clean_elem (snd p)) (map fst (files d) @ dirs d)"

definition wf_object :: "(string \<times> string) \<times> ConfigMap \<Rightarrow> bool" where
  "wf_object e =
     (Namespace (snd e) = fst (fst e) \<and> Name (snd e) = snd (fst e)
      \<and> map_of (Labels (snd e)) ''rdns-value-type'' = Some (drop 33 (snd (fst e))))"

definition store_ok :: "KeyValueStore \<Rightarrow> bool" where
  "store_ok store =
     (case store of
        OnFilesystem fs d \<Rightarrow> wf_disk d
      | OnK8s md5hex s c \<Rightarrow> (\<forall>name. length (md5hex name) = 32) \<and> list_all wf_object (objects c))"

text \<open>
  Two states of the file system that differ at most in the file \<open>F\<close>: the directories
  are the same, every other path holds the same file, and the other files are listed
  in the same order.
\<close>

definition same_except :: "fpath \<Rightarrow> disk \<Rightarrow> disk \<Rightarrow> bool" where
  "same_except F d d' =
     (dirs d' = dirs d
      \<and> (\<forall>q. q \<noteq> F \<longrightarrow> map_of (files d') q = map_of (files d) q)
      \<and> filter (\<lambda>q. q \<noteq> F) (map fst (files d')) = filter (\<lambda>q. q \<noteq> F) (map fst (files d)))"

text \<open>
  Two states of a cluster that the value type \<open>t2\<close> of a namespace cannot tell apart:
  the cluster is reachable in both or in neither, the config maps of the names
  generated for \<open>t2\<close> are the same, and so are the config maps that carry the label of
  \<open>t2\<close>, in the same order.
\<close>

definition unobserved :: "(string \<Rightarrow> string) \<Rightarrow> string \<Rightarrow> string \<Rightarrow> cluster \<Rightarrow> cluster \<Rightarrow> bool" where
  "unobserved md5hex ns t2 c c' =
     (up c' = up c
      \<and> (\<forall>n. map_of (objects c') (ns, generateName md5hex n t2)
               = map_of (objects c) (ns, generateName md5hex n t2))
      \<and> filter (\<lambda>e. fst (fst e) = ns \<and> map_of (Labels (snd e)) ''rdns-value-type'' = Some t2) (objects c')
         = filter (\<lambda>e. fst (fst e) = ns \<and> map_of (Labels (snd e)) ''rdns-value-type'' = Some t2) (objects c))"

section \<open>Example inputs of the resolver\<close>

text \<open>
  The configuration of the scenario S1 of the spec, a reachable store holding given
  pairs, and the pair of S1 under a key \<open>k\<close>.
\<close>

definition S1_config :: ETCD where
  "S1_config = \<lparr>Zones = [''lb.example.''], PathPrefix = ''rdnsv3'', WildcardBound = 3\<rparr>"

definition store_of :: "KeyValue list \<Rightarrow> etcd_store" where
  "store_of kvs = \<lparr>pairs = kvs, reachable = True\<rparr>"

definition S1_pair :: "string \<Rightarrow> KeyValue" where
  "S1_pair k = \<lparr>Key = k, Value = ''{\"host\":\"1.2.3.4\"}'', Lease = 100\<rparr>"

definition S1_query :: string where
  "S1_query = ''foo.bar.baz.1_2_3_4.lb.example.''"

text \<open>
  A key one level under the path of \<open>*.1_2_3_4.lb.example\<close>, the name the query of S1
  is rewritten to.
\<close>

definition collapsed_key :: "string \<Rightarrow> string" where
  "collapsed_key leaf = ''/rdnsv3/example/lb/1_2_3_4/'' @ leaf"

text \<open>Two records under \<open>host1.lb.example.\<close>, the second with a truncated document.\<close>

definition host1_good :: KeyValue where
  "host1_good =
     \<lparr>Key = ''/rdnsv3/example/lb/host1/1_1_1_1'', Value = ''{\"host\":\"1.1.1.1\"}'', Lease = 0\<rparr>"

definition host1_bad :: KeyValue where
  "host1_bad = \<lparr>Key = ''/rdnsv3/example/lb/host1/2_2_2_2'', Value = ''{\"host\":'', Lease = 0\<rparr>"

definition host1_sub :: KeyValue where
  "host1_sub =
     \<lparr>Key = ''/rdnsv3/example/lb/host1/sub/2_2_2_2'', Value = ''{\"host\":\"2.2.2.2\"}'', Lease = 0\<rparr>"

text \<open>
  A configuration whose path prefix has 258 segments, \<open>p/p/...\<close>/\<open>p\<close>. The path of the
  name \<open>1_2_3_4.lb.example.\<close> then has 262 segments, and \<open>int8(262) - 3 = 3\<close>. The
  store holds one record, one level under that path.
\<close>

definition nested_prefix :: "nat \<Rightarrow> string" where
  "nested_prefix n = concat (replicate n ''p/'') @ ''p''"

definition deep_config :: ETCD where
  "deep_config = \<lparr>Zones = [''lb.example.''], PathPrefix = nested_prefix 257, WildcardBound = 3\<rparr>"

definition deep_query :: string where
  "deep_query = ''1_2_3_4.lb.example.''"

definition deep_path :: string where
  "deep_path = ''/'' @ nested_prefix 257 @ ''/example/lb/1_2_3_4''"

definition deep_kv :: KeyValue where
  "deep_kv = \<lparr>Key = deep_path @ ''/1_2_3_4'', Value = ''{\"host\":\"1.2.3.4\"}'', Lease = 0\<rparr>"

section \<open>Example stores\<close>

text \<open>
  A store under \<open>/var/rdns\<close> with the directories that \<open>New\<close> makes, one per value type.
\<close>

definition rdns_fs :: Filesystem where
  "rdns_fs = \<lparr>path = ''/var/rdns''\<rparr>"

definition rdns_dirs :: "fpath list" where
  "rdns_dirs = (True, [''var'', ''rdns'']) # map (\<lambda>t. (True, [''var'', ''rdns'', t])) ValueTypes"

definition token_old :: Token where
  "token_old = \<lparr>Token = ''abcdefgh'', Fqdn = ''a.lb.example'', CreatedOn = 1000\<rparr>"

definition token_new :: Token where
  "token_new = \<lparr>Token = ''x'', Fqdn = ''a.lb.example'', CreatedOn = 2000\<rparr>"

text \<open>The file system with the token of \<open>a.lb.example\<close>.\<close>

definition disk_token :: disk where
  "disk_token =
     \<lparr>dirs = rdns_dirs,
      files = [((True, [''var'', ''rdns'', ''token'', ''a.lb.example'']),
                ''{\"token\":\"abcdefgh\",\"fqdn\":\"a.lb.example\",\"createdOn\":1000}'')]\<rparr>"

text \<open>The file system with the frozen prefix \<open>abc\<close>, created at time 1000.\<close>

definition disk_frozen :: disk where
  "disk_frozen =
     \<lparr>dirs = rdns_dirs,
      files = [((True, [''var'', ''rdns'', ''frozen-prefix'', ''abc'']), ''{\"createdOn\":1000}'')]\<rparr>"

text \<open>Two sub-A records, of the token ids 1 and 2.\<close>

definition suba_1 :: SubRecordA where
  "suba_1 = \<lparr>Fqdn_a = ''x.a.lb.example'', Hosts_a = [''1.1.1.1''], TID_a = 1, Text_a = []\<rparr>"

definition suba_2 :: SubRecordA where
  "suba_2 = \<lparr>Fqdn_a = ''y.b.lb.example'', Hosts_a = [''2.2.2.2''], TID_a = 2, Text_a = []\<rparr>"

definition disk_suba :: disk where
  "disk_suba =
     \<lparr>dirs = rdns_dirs,
      files = [((True, [''var'', ''rdns'', ''sub-a-record'', ''x.a.lb.example'']),
                ''{\"fqdn\":\"x.a.lb.example\",\"hosts\":[\"1.1.1.1\"],\"tid\":1}''),
               ((True, [''var'', ''rdns'', ''sub-a-record'', ''y.b.lb.example'']),
                ''{\"fqdn\":\"y.b.lb.example\",\"hosts\":[\"2.2.2.2\"],\"tid\":2}'')]\<rparr>"

text \<open>
  A cluster with the token of \<open>a.lb.example\<close> in the namespace \<open>rdns\<close>. \<open>md5hex_names\<close>
  gives the MD5 digests of the names the examples use; every other name stands for a
  digest of 32 zeros.
\<close>

definition md5hex_names :: "string \<Rightarrow> string" where
  "md5hex_names name =
     (if name = ''a.lb.example'' then ''8810385cf1c310a6d1b17380825705f5''
      else if name = ''b.lb.example'' then ''1e7cc5b1728fe50a8f3e9ce13319040c''
      else if name = ''abc'' then ''900150983cd24fb0d6963f7d28e17f72''
      else replicate 32 CHR ''0'')"

definition rdns_k8s :: K8sStore where
  "rdns_k8s = \<lparr>namespace = ''rdns''\<rparr>"

definition cm_token :: ConfigMap where
  "cm_token =
     \<lparr>Name = ''8810385cf1c310a6d1b17380825705f5-token'', Namespace = ''rdns'',
      Annotations = [(''rdns-name'', ''a.lb.example'')],
      Labels = [(''rdns-value-type'', ''token''), (''rnds-value'', ''true'')],
      Data = [(''data'', ''{\"token\":\"abcdefgh\",\"fqdn\":\"a.lb.example\",\"createdOn\":1000}'')]\<rparr>"

definition cluster_token :: cluster where
  "cluster_token =
     \<lparr>objects = [((''rdns'', ''8810385cf1c310a6d1b17380825705f5-token''), cm_token)], up = True\<rparr>"

section \<open>Lemmas about strings and evaluation\<close>

lemmas json_eval = json_parse_def idle_step_def is_space_def is_digit_def is_letter_def
  number_token_def word_token_def

lemmas codec_eval = SplitDomainName_def TrimSuffix_def HasSuffix_def path_labels_def path_of_def
  Path_def PathWithWildcard_def to_lower_def

lemma Split_no_sep: "c \<notin> set s \<Longrightarrow> Split c s = [s]"
  by (induction s) auto

lemma Split_not_Nil: "Split c s \<noteq> []"
  by (induction s) (auto split: list.splits)

lemma Split_append_sep: "Split c (a @ c # b) = Split c a @ Split c b"
proof (induction a)
  case Nil
  then show ?case by simp
next
  case (Cons x a)
  then show ?case using Split_not_Nil [of c a] by (cases "Split c a") auto
qed

lemma Split_concat_replicate:
  "c \<notin> set s \<Longrightarrow> Split c (concat (replicate n (s @ [c])) @ t) = replicate n s @ Split c t"
proof (induction n)
  case 0
  show ?case by simp
next
  case (Suc n)
  have "Split c (concat (replicate (Suc n) (s @ [c])) @ t)
      = Split c (s @ c # (concat (replicate n (s @ [c])) @ t))"
    by simp
  also have "\<dots> = Split c s @ Split c (concat (replicate n (s @ [c])) @ t)"
    by (simp only: Split_append_sep)
  finally show ?case using Suc by (simp add: Split_no_sep)
qed

lemma HasPrefix_append: "HasPrefix (a @ b) (a @ c) = HasPrefix b c"
  by (induction a) simp_all

lemma HasPrefix_set: "HasPrefix s p \<Longrightarrow> set p \<subseteq> set s"
  by (induction s p rule: HasPrefix.induct) auto

lemma sint_int8_small:
  "- 128 \<le> k \<Longrightarrow> k \<le> 127 \<Longrightarrow> sint (word_of_int k :: 8 word) = k"
  by (simp add: sint_sbintrunc' signed_take_bit_int_eq_self)

lemma int8_len_minus_3:
  assumes "n \<le> 130"
  shows "((w :: 8 word) = of_nat n - 3) = (sint w = int n - 3)"
proof
  assume "w = of_nat n - 3"
  then have "w = word_of_int (int n - 3)" by simp
  then show "sint w = int n - 3"
    using assms sint_int8_small [of "int n - 3"] by simp
next
  assume h: "sint w = int n - 3"
  have "w = word_of_int (sint w)" by simp
  then show "w = of_nat n - 3" unfolding h by simp
qed

lemma S1_value:
  "Unmarshal_Service ''{\"host\":\"1.2.3.4\"}'' Service_zero
     = Some \<lparr>Host = ''1.2.3.4'', Text = [], TTL_s = 0, Priority = 0, Mail = False, Key_s = []\<rparr>"
  by (simp add: Unmarshal_Service_def json_eval decode_struct_def Service_field_def key_is_def
      to_lower_def as_string_def Service_zero_def)

section \<open>Lemmas about the stores\<close>

lemmas value_types = TokenValueType_def FrozenPrefixValueType_def SubARecordValueType_def
  ARecordValueType_def CNAMERecordValueType_def TXTRecordValueType_def ValueTypes_def

lemmas path_eval = path_Join_def path_Clean_def

lemmas text_eval = omit_string_def omit_int_def omit_strings_def quote_text_def int_text_def

lemmas decode_eval = decode_struct_def key_is_def to_lower_def as_string_def as_int64_def
  as_strings_def

lemma map_of_put: "map_of (put k v m) = (map_of m)(k \<mapsto> v)"
  by (induction m) (auto simp: fun_eq_iff)

lemma map_of_remove: "map_of (remove k m) = (map_of m)(k := None)"
  by (induction m) (auto simp: remove_def fun_eq_iff)

lemma index_put: "index (put k v m) k = v"
  by (simp add: index_def map_of_put)

lemma stat_put: "stat (d\<lparr>files := put p c (files d)\<rparr>) (Some p) = File c"
  by (simp add: stat_def map_of_put)

lemma Unmarshal_nil: "Unmarshal dec data None = Inr m \<Longrightarrow> m = None"
  by (auto simp: Unmarshal_def split: option.splits)

lemma GetValue_nil: "snd (snd (GetValue dec store name valueType None)) = None"
  by (cases store)
     (auto simp: GetValue_def Filesystem_GetValue_def K8sStore_GetValue_def Let_def
        dest: Unmarshal_nil split: node.splits sum.splits)

lemma empty_doc: "json_parse ''{}'' = Some (JObj [])"
  by (simp add: json_eval)

lemma Token_zero_text: "json_text (Token_json Token_zero) = ''{}''"
  by (simp add: Token_json_def Token_zero_def text_eval)

lemma Token_zero_fields:
  "CreatedOn Token_zero = 0" "Token Token_zero = []" "Fqdn Token_zero = []"
  by (simp_all add: Token_zero_def)

lemma Unmarshal_empty:
  "Unmarshal (decode_struct Token_field) ''{}'' (Some Token_zero) = Inr (Some Token_zero)"
  by (simp add: Unmarshal_def empty_doc decode_struct_def)

lemma token_path:
  "path_Join [''/var/rdns'', ''token'', ''a.lb.example'']
     = Some (True, [''var'', ''rdns'', ''token'', ''a.lb.example''])"
  by (simp add: path_eval)

lemma token_new_text:
  "json_text (Token_json token_new) = ''{\"token\":\"x\",\"fqdn\":\"a.lb.example\",\"createdOn\":2000}''"
  by (simp add: Token_json_def token_new_def text_eval)

lemma token_old_doc:
  "json_parse ''{\"token\":\"abcdefgh\",\"fqdn\":\"a.lb.example\",\"createdOn\":1000}''
     = Some (JObj [(''token'', JStr ''abcdefgh''), (''fqdn'', JStr ''a.lb.example''),
                   (''createdOn'', JNum 1000)])"
  by (simp add: json_eval)

lemma token_old_Unmarshal:
  "Unmarshal (decode_struct Token_field)
     ''{\"token\":\"abcdefgh\",\"fqdn\":\"a.lb.example\",\"createdOn\":1000}'' (Some Token_zero)
   = Inr (Some token_old)"
  by (simp add: Unmarshal_def token_old_doc decode_eval Token_field_def Token_zero_def token_old_def)

section \<open>Properties of the resolver\<close>

subsection \<open>TTL negotiation\<close>

text \<open>
  \<open>uint32(kv.Lease)\<close> on the 64-bit lease field is the field modulo \<open>2^32\<close>.
\<close>

lemma uint32_of_lease: "uint (ucast (l :: 64 word) :: 32 word) = sint l mod 2 ^ 32"
proof -
  have "uint (ucast l :: 32 word) = take_bit 32 (uint l)"
    by (simp add: unsigned_ucast_eq)
  also have "uint l = take_bit 64 (sint l)"
    by (simp add: uint_sint)
  also have "take_bit 32 (take_bit 64 (sint l)) = take_bit 32 (sint l)"
    by (simp add: take_bit_take_bit)
  finally show ?thesis
    by (simp add: take_bit_eq_mod)
qed

lemma TTL_uint:
  "uint (TTL kv serv) = TTL_spec (uint (ucast (Lease kv) :: 32 word)) (uint (TTL_s serv))"
  by (auto simp add: TTL_def TTL_spec_def ttl_def Let_def min_def word_less_def word_uint_eq_iff)

text \<open>
  C2, as the code has it. The TTL of the answer is the rule of the spec (the default 300
  when both values are zero, the non-zero one when exactly one is zero, the minimum when
  both are non-zero) applied to the \<open>ttl\<close> field of the Service and to the lease of the
  pair taken modulo \<open>2^32\<close>, which is what \<open>uint32(kv.Lease)\<close> keeps of the 64-bit
  field. For a lease from 0 to \<open>2^32 - 1\<close> it is the rule applied to the lease itself.
\<close>

theorem TTL_negotiation:
  "uint (TTL kv serv) = TTL_spec (sint (Lease kv) mod 2 ^ 32) (uint (TTL_s serv))
   \<and> (0 \<le> sint (Lease kv) \<and> sint (Lease kv) < 2 ^ 32 \<longrightarrow>
        uint (TTL kv serv) = TTL_spec (sint (Lease kv)) (uint (TTL_s serv)))"
  by (simp add: TTL_uint uint32_of_lease)

text \<open>
  The three cases of the scenario S6, all with a lease in range: lease 200 with service
  ttl 50 gives 50, both zero give 300, lease 77 with service ttl 0 gives 77.
\<close>

theorem TTL_negotiation_witness:
  "0 \<le> sint (200 :: 64 word) \<and> sint (200 :: 64 word) < 2 ^ 32
   \<and> uint (TTL \<lparr>Key = ''k'', Value = ''v'', Lease = 200\<rparr> (Service_zero\<lparr>TTL_s := 50\<rparr>)) = 50
   \<and> uint (TTL \<lparr>Key = ''k'', Value = ''v'', Lease = 0\<rparr> Service_zero) = 300
   \<and> uint (TTL \<lparr>Key = ''k'', Value = ''v'', Lease = 77\<rparr> Service_zero) = 77"
  using TTL_negotiation [of "\<lparr>Key = ''k'', Value = ''v'', Lease = 200\<rparr>" "Service_zero\<lparr>TTL_s := 50\<rparr>"]
    TTL_negotiation [of "\<lparr>Key = ''k'', Value = ''v'', Lease = 0\<rparr>" Service_zero]
    TTL_negotiation [of "\<lparr>Key = ''k'', Value = ''v'', Lease = 77\<rparr>" Service_zero]
  by (simp add: Service_zero_def TTL_spec_def)

text \<open>
  Stated for every lease, the rule fails: the lease \<open>2^32 + 5\<close> with service ttl 50 gives
  5, where the minimum of the two is 50; the lease \<open>2^32\<close> with service ttl 0 gives the
  default 300, where the non-zero one is \<open>2^32\<close>.
\<close>

theorem TTL_lease_counterexample:
  "uint (TTL \<lparr>Key = ''k'', Value = ''v'', Lease = 4294967301\<rparr> (Service_zero\<lparr>TTL_s := 50\<rparr>)) = 5
   \<and> TTL_spec (sint (Lease \<lparr>Key = ''k'', Value = ''v'', Lease = 4294967301\<rparr>))
        (uint (TTL_s (Service_zero\<lparr>TTL_s := 50\<rparr>))) = 50
   \<and> uint (TTL \<lparr>Key = ''k'', Value = ''v'', Lease = 4294967296\<rparr> Service_zero) = 300
   \<and> TTL_spec (sint (Lease \<lparr>Key = ''k'', Value = ''v'', Lease = 4294967296\<rparr>))
        (uint (TTL_s Service_zero)) = 4294967296"
  by (simp add: TTL_def TTL_spec_def ttl_def Service_zero_def)

subsection \<open>The sibling filter\<close>

lemma MatchString_ipv4_not_star: "MatchString_ipv4 s \<Longrightarrow> s \<noteq> ''*''"
  by (auto simp: MatchString_ipv4_def)

lemma MatchString_ipv4_1_2_3_4: "MatchString_ipv4 ''1_2_3_4''"
  by (simp add: MatchString_ipv4_def digits_1_3_def is_digit_def)

lemma filterKvs_keep_int8:
  "segments \<noteq> [] \<Longrightarrow> filterKvs_keep e segments v = Some (sibling_keep_int8 e segments v)"
  using MatchString_ipv4_not_star [of "last segments"]
  by (auto simp: filterKvs_keep_def sibling_keep_int8_def Let_def)

lemma filterKvs_loop_filter:
  "segments \<noteq> [] \<Longrightarrow>
   filterKvs_loop e segments kvs result = Inr (result @ filter (sibling_keep_int8 e segments) kvs)"
  by (induction kvs arbitrary: result) (simp_all add: filterKvs_keep_int8)

lemma sibling_keep_small:
  "length segments \<le> 130 \<Longrightarrow> sibling_keep_int8 e segments v = sibling_keep_spec e segments v"
  by (simp add: sibling_keep_int8_def sibling_keep_spec_def int8_len_minus_3)

text \<open>
  C5, as the code has it. For a query of type A and a non-empty list of segments (a path
  split is never empty) the filter keeps exactly the pairs that are not the collapsed
  wildcard case and lie one level under the query (under its parent when the leaf is
  \<open>*\<close>), where the collapsed wildcard case compares \<open>wildcardBound\<close> with
  \<open>int8(len(segments)) - 3\<close> in 8 bits; for up to 130 segments this is the comparison
  with \<open>len(segments) - 3\<close> of the spec. For every other query type the list is
  returned unchanged.
\<close>

theorem filterKvs_sibling_filter:
  "segments \<noteq> [] \<Longrightarrow>
     filterKvs e kvs segments TypeA = Inr (filter (sibling_keep_int8 e segments) kvs)
     \<and> (length segments \<le> 130 \<longrightarrow>
          filterKvs e kvs segments TypeA = Inr (filter (sibling_keep_spec e segments) kvs))
     \<and> (qType \<noteq> TypeA \<longrightarrow> filterKvs e kvs segments qType = Inr kvs)"
  by (simp add: filterKvs_def filterKvs_loop_filter sibling_keep_small cong: filter_cong)

text \<open>
  An A query for \<open>host1.lb.example.\<close>: the record one level under the name is kept, the
  record of the sub-domain is dropped; a TXT query keeps both.
\<close>

theorem filterKvs_sibling_filter_witness:
  "filterKvs S1_config [host1_good, host1_sub] [[], ''rdnsv3'', ''example'', ''lb'', ''host1''] TypeA
     = Inr [host1_good]
   \<and> filter (sibling_keep_spec S1_config [[], ''rdnsv3'', ''example'', ''lb'', ''host1''])
        [host1_good, host1_sub] = [host1_good]
   \<and> filterKvs S1_config [host1_good, host1_sub] [[], ''rdnsv3'', ''example'', ''lb'', ''host1''] TypeTXT
     = Inr [host1_good, host1_sub]"
proof -
  let ?segs = "[[], ''rdnsv3'', ''example'', ''lb'', ''host1'']"
  let ?kvs = "[host1_good, host1_sub]"
  have s: "filter (sibling_keep_spec S1_config ?segs) ?kvs = [host1_good]"
    by (simp add: sibling_keep_spec_def host1_good_def host1_sub_def MatchString_ipv4_def Let_def)
  have ne: "?segs \<noteq> []" and le: "length ?segs \<le> 130" and ty: "TypeTXT \<noteq> TypeA"
    by (simp_all add: TypeA_def TypeTXT_def)
  from filterKvs_sibling_filter [OF ne, of S1_config ?kvs TypeTXT] le ty
  have "filterKvs S1_config ?kvs ?segs TypeA = Inr (filter (sibling_keep_spec S1_config ?segs) ?kvs)"
    and "filterKvs S1_config ?kvs ?segs TypeTXT = Inr ?kvs"
    by blast+
  then show ?thesis
    by (simp only: s simp_thms)
qed

text \<open>The query \<open>1_2_3_4.lb.example.\<close> under the prefix of 258 segments.\<close>

lemma nested_prefix_Split:
  "Split CHR ''/'' (nested_prefix n @ t) = replicate n ''p'' @ Split CHR ''/'' (''p'' @ t)"
  using Split_concat_replicate [of "CHR ''/''" "''p''" n "''p'' @ t"]
  by (simp add: nested_prefix_def)

lemma deep_labels: "path_labels deep_query = [''example'', ''lb'', ''1_2_3_4'']"
  by (simp add: deep_query_def codec_eval)

lemma deep_Path: "Path deep_query (PathPrefix deep_config) = deep_path"
  by (simp add: Path_def deep_labels path_of_def deep_config_def deep_path_def)

lemma deep_PathWithWildcard:
  "PathWithWildcard deep_query (PathPrefix deep_config) = (deep_path, False)"
  by (simp add: PathWithWildcard_def deep_labels path_of_def deep_config_def deep_path_def)

lemma deep_segments:
  "Split CHR ''/'' deep_path = [] # replicate 257 ''p'' @ [''p'', ''example'', ''lb'', ''1_2_3_4'']"
  using nested_prefix_Split [of 257 "''/example/lb/1_2_3_4''"]
  by (simp add: deep_path_def)

lemma deep_key:
  "Split CHR ''/'' (Key deep_kv)
     = [] # replicate 257 ''p'' @ [''p'', ''example'', ''lb'', ''1_2_3_4'', ''1_2_3_4'']"
proof -
  have "Key deep_kv = deep_path @ CHR ''/'' # ''1_2_3_4''"
    by (simp add: deep_kv_def)
  then have "Split CHR ''/'' (Key deep_kv) = Split CHR ''/'' deep_path @ Split CHR ''/'' ''1_2_3_4''"
    by (simp only: Split_append_sep)
  then show ?thesis
    by (simp add: deep_segments)
qed

lemma deep_no_slash: "\<not> HasSuffix deep_path ''/''"
  by (simp add: HasSuffix_def deep_path_def)

lemma deep_get: "get (store_of [deep_kv]) deep_path True = Inr [deep_kv]"
proof -
  have "HasPrefix (Key deep_kv) (deep_path @ ''/'')"
    by (simp add: deep_kv_def HasPrefix_append)
  then show ?thesis
    by (simp add: get_def deep_no_slash Client_Get_def store_of_def)
qed

lemma deep_wildcard: "wildcard_name deep_config st deep_query TypeA = Inr deep_query"
  by (simp add: wildcard_name_def deep_config_def deep_query_def codec_eval TypeA_def TypeTXT_def)

lemma deep_not_zone: "\<not> list_ex (\<lambda>zone. HasPrefix deep_query zone) (Zones deep_config)"
  by (simp add: deep_config_def deep_query_def)

lemma deep_length: "length (Split CHR ''/'' deep_path) = 262"
  by (simp add: deep_segments)

lemma deep_last: "last (Split CHR ''/'' deep_path) = ''1_2_3_4''"
  by (simp add: deep_segments)

lemma deep_key_length: "length (Split CHR ''/'' (Key deep_kv)) = 263"
  by (simp add: deep_key)

lemma deep_filterKvs: "filterKvs deep_config [deep_kv] (Split CHR ''/'' deep_path) TypeA = Inr []"
  using Split_not_Nil [of "CHR ''/''" deep_path]
  by (simp add: filterKvs_def filterKvs_keep_def Let_def deep_length deep_last deep_key_length
      MatchString_ipv4_1_2_3_4 deep_config_def)

lemma deep_spec: "sibling_keep_spec deep_config (Split CHR ''/'' deep_path) deep_kv"
  by (simp add: sibling_keep_spec_def Let_def deep_length deep_last deep_key_length deep_config_def)

lemma deep_loopNodes:
  "loopNodes [deep_kv] (Split CHR ''/'' deep_path) False TypeA
     = Inr [\<lparr>Host = ''1.2.3.4'', Text = [], TTL_s = 300, Priority = 10, Mail = False,
             Key_s = Key deep_kv\<rparr>]"
  by (simp add: loopNodes_def deep_kv_def S1_value TTL_def ttl_def priority_def shouldInclude_def
      TypeA_def TypeTXT_def Let_def)

text \<open>
  With the comparison read over the integers the claim fails, on a query that \<open>Records\<close>
  answers: under a path prefix of 258 segments and \<open>wildcardBound = 3\<close> the name
  \<open>1_2_3_4.lb.example.\<close> is not rewritten and its path splits into 262 segments ending
  in \<open>1_2_3_4\<close>. The store's one key has 263 segments; the spec's rule keeps it (3 is
  not 259) and the record would be answered, the code drops it
  (\<open>int8(262) - 3 = 3\<close>) and \<open>Records\<close> answers nothing.
\<close>

theorem filterKvs_int8_counterexample:
  "Split CHR ''/'' (Path deep_query (PathPrefix deep_config))
     = [] # replicate 257 ''p'' @ [''p'', ''example'', ''lb'', ''1_2_3_4'']
   \<and> length (Split CHR ''/'' (Path deep_query (PathPrefix deep_config))) = 262
   \<and> sint (WildcardBound deep_config) = 3
   \<and> filter (sibling_keep_spec deep_config (Split CHR ''/'' (Path deep_query (PathPrefix deep_config))))
        [deep_kv] = [deep_kv]
   \<and> loopNodes [deep_kv] (Split CHR ''/'' (Path deep_query (PathPrefix deep_config))) False TypeA
       = Inr [\<lparr>Host = ''1.2.3.4'', Text = [], TTL_s = 300, Priority = 10, Mail = False,
               Key_s = Key deep_kv\<rparr>]
   \<and> filterKvs deep_config [deep_kv] (Split CHR ''/'' (Path deep_query (PathPrefix deep_config))) TypeA
       = Inr []
   \<and> Records deep_config (store_of [deep_kv]) deep_query TypeA False = Inr []"
proof -
  have "Records deep_config (store_of [deep_kv]) deep_query TypeA False = Inr []"
    unfolding Records_def deep_wildcard
    using deep_not_zone
    by (simp add: deep_PathWithWildcard deep_Path deep_get deep_filterKvs loopNodes_def)
  moreover have "sint (WildcardBound deep_config) = 3"
    by (simp add: deep_config_def)
  moreover have "filter (sibling_keep_spec deep_config (Split CHR ''/'' deep_path)) [deep_kv] = [deep_kv]"
    by (simp add: deep_spec)
  ultimately show ?thesis
    unfolding deep_Path
    by (simp only: deep_segments [symmetric] deep_length deep_loopNodes deep_filterKvs simp_thms)
qed

subsection \<open>The scenario S1\<close>

lemma S1_labels:
  "SplitDomainName S1_query = [''foo'', ''bar'', ''baz'', ''1_2_3_4'', ''lb'', ''example'']"
  by (simp add: S1_query_def codec_eval)

lemma S1_not_zone: "\<not> list_ex (\<lambda>zone. HasPrefix S1_query zone) (Zones S1_config)"
  by (simp add: S1_config_def S1_query_def)

lemma S1_prefix: "PathPrefix S1_config = ''rdnsv3''"
  by (simp add: S1_config_def)

lemma S1_path:
  "PathWithWildcard ''*.1_2_3_4.lb.example'' ''rdnsv3'' = (''/rdnsv3/example/lb/1_2_3_4'', True)"
  by (simp add: codec_eval)

lemma S1_segments:
  "Split CHR ''/'' (Path ''*.1_2_3_4.lb.example'' ''rdnsv3'')
     = [[], ''rdnsv3'', ''example'', ''lb'', ''1_2_3_4'', ''*'']"
  by (simp add: codec_eval)

text \<open>The store of S1 as the spec writes its key, and with a leading slash.\<close>

lemma S1_not_found:
  assumes "k = ''rdnsv3/example/lb/*/1_2_3_4'' \<or> k = ''/rdnsv3/example/lb/*/1_2_3_4''"
  shows "Records S1_config (store_of [S1_pair k]) S1_query TypeA False = Inl errKeyNotFound"
proof -
  have e: "\<not> pathExist S1_config (store_of [S1_pair k])
             [''foo'', ''bar'', ''baz'', ''1_2_3_4'', ''lb'', ''example'']"
    using assms
    by (auto simp: pathExist_def S1_config_def store_of_def S1_pair_def Client_Get_def codec_eval)
  have w: "wildcard_name S1_config (store_of [S1_pair k]) S1_query TypeA
             = Inr ''*.1_2_3_4.lb.example''"
    unfolding wildcard_name_def S1_labels Let_def
    by (simp add: e) (simp add: S1_config_def TypeA_def TypeTXT_def)
  have g: "get (store_of [S1_pair k]) ''/rdnsv3/example/lb/1_2_3_4'' True = Inl errKeyNotFound"
    using assms
    by (auto simp: get_def store_of_def S1_pair_def Client_Get_def HasSuffix_def TrimSuffix_def)
  show ?thesis
    unfolding Records_def w S1_prefix
    using S1_not_zone by (simp add: S1_path g)
qed

text \<open>The store with the record one level under the path of the rewritten name.\<close>

lemma collapsed_Split:
  assumes "CHR ''/'' \<notin> set leaf"
  shows "Split CHR ''/'' (collapsed_key leaf) = [[], ''rdnsv3'', ''example'', ''lb'', ''1_2_3_4'', leaf]"
proof -
  have "collapsed_key leaf = ''/rdnsv3/example/lb/1_2_3_4'' @ CHR ''/'' # leaf"
    by (simp add: collapsed_key_def)
  then have "Split CHR ''/'' (collapsed_key leaf)
      = Split CHR ''/'' ''/rdnsv3/example/lb/1_2_3_4'' @ Split CHR ''/'' leaf"
    by (simp only: Split_append_sep)
  then show ?thesis using assms by (simp add: Split_no_sep)
qed

lemma collapsed_not_exist:
  assumes "CHR ''/'' \<notin> set leaf"
  shows "\<not> pathExist S1_config (store_of [S1_pair (collapsed_key leaf)])
           [''foo'', ''bar'', ''baz'', ''1_2_3_4'', ''lb'', ''example'']"
proof -
  have "\<not> HasPrefix (collapsed_key leaf) ''/rdnsv3/example/lb/1_2_3_4/baz/bar/foo''"
    using assms HasPrefix_set [of leaf "''baz/bar/foo''"] by (auto simp: collapsed_key_def)
  then show ?thesis
    by (simp add: pathExist_def S1_config_def store_of_def S1_pair_def Client_Get_def codec_eval)
qed

lemma collapsed_wildcard:
  assumes "CHR ''/'' \<notin> set leaf"
  shows "wildcard_name S1_config (store_of [S1_pair (collapsed_key leaf)]) S1_query TypeA
           = Inr ''*.1_2_3_4.lb.example''"
  unfolding wildcard_name_def S1_labels Let_def
  by (simp add: collapsed_not_exist [OF assms]) (simp add: S1_config_def TypeA_def TypeTXT_def)

lemma collapsed_get:
  "get (store_of [S1_pair (collapsed_key leaf)]) ''/rdnsv3/example/lb/1_2_3_4'' True
     = Inr [S1_pair (collapsed_key leaf)]"
proof -
  have "HasPrefix (collapsed_key leaf) ''/rdnsv3/example/lb/1_2_3_4/''"
    by (simp add: collapsed_key_def)
  then show ?thesis
    by (simp add: get_def store_of_def S1_pair_def Client_Get_def HasSuffix_def)
qed

lemma collapsed_filter:
  assumes "CHR ''/'' \<notin> set leaf"
  shows "filterKvs S1_config [S1_pair (collapsed_key leaf)]
           [[], ''rdnsv3'', ''example'', ''lb'', ''1_2_3_4'', ''*''] TypeA
         = Inr [S1_pair (collapsed_key leaf)]"
  using collapsed_Split [OF assms]
  by (simp add: filterKvs_def filterKvs_keep_def S1_pair_def Let_def)

lemma collapsed_loopNodes:
  assumes "CHR ''/'' \<notin> set leaf"
  shows "loopNodes [S1_pair (collapsed_key leaf)]
           [[], ''rdnsv3'', ''example'', ''lb'', ''1_2_3_4'', ''*''] True TypeA
         = Inr [\<lparr>Host = ''1.2.3.4'', Text = [], TTL_s = 100, Priority = 10, Mail = False,
                 Key_s = collapsed_key leaf\<rparr>]"
  using collapsed_Split [OF assms]
  by (simp add: loopNodes_def S1_pair_def S1_value TTL_def priority_def shouldInclude_def
      TypeA_def TypeTXT_def Let_def)

text \<open>
  C1, as the code has it. With the configuration and the query of S1, a store whose one
  key lies one level under \<open>/rdnsv3/example/lb/1_2_3_4\<close> (the path of the rewritten name
  \<open>*.1_2_3_4.lb.example\<close>) and holds \<open>{"host":"1.2.3.4"}\<close> with lease 100 gives exactly
  one Service, with host \<open>1.2.3.4\<close>, ttl 100 and priority 10. With the key of S1,
  \<open>rdnsv3/example/lb/*/1_2_3_4\<close>, with or without a leading slash, the query fails with
  \<open>errKeyNotFound\<close>.
\<close>

theorem Records_S1_collapsed:
  "CHR ''/'' \<notin> set leaf \<Longrightarrow>
     Records S1_config (store_of [S1_pair (collapsed_key leaf)]) S1_query TypeA False
       = Inr [\<lparr>Host = ''1.2.3.4'', Text = [], TTL_s = 100, Priority = 10, Mail = False,
               Key_s = collapsed_key leaf\<rparr>]
     \<and> Records S1_config (store_of [S1_pair ''rdnsv3/example/lb/*/1_2_3_4'']) S1_query TypeA False
       = Inl errKeyNotFound
     \<and> Records S1_config (store_of [S1_pair ''/rdnsv3/example/lb/*/1_2_3_4'']) S1_query TypeA False
       = Inl errKeyNotFound"
proof -
  assume a: "CHR ''/'' \<notin> set leaf"
  have "Records S1_config (store_of [S1_pair (collapsed_key leaf)]) S1_query TypeA False
       = Inr [\<lparr>Host = ''1.2.3.4'', Text = [], TTL_s = 100, Priority = 10, Mail = False,
               Key_s = collapsed_key leaf\<rparr>]"
    unfolding Records_def collapsed_wildcard [OF a] S1_prefix
    using S1_not_zone
    by (simp add: S1_path S1_segments collapsed_get collapsed_filter [OF a]
        collapsed_loopNodes [OF a])
  then show ?thesis
    by (simp add: S1_not_found)
qed

theorem Records_S1_collapsed_witness:
  "Records S1_config (store_of [S1_pair ''/rdnsv3/example/lb/1_2_3_4/1_2_3_4'']) S1_query TypeA False
     = Inr [\<lparr>Host = ''1.2.3.4'', Text = [], TTL_s = 100, Priority = 10, Mail = False,
             Key_s = ''/rdnsv3/example/lb/1_2_3_4/1_2_3_4''\<rparr>]"
  using Records_S1_collapsed [of "''1_2_3_4''"]
  by (simp add: collapsed_key_def)

text \<open>
  The scenario S1 as the spec states it: the one key \<open>rdnsv3/example/lb/*/1_2_3_4\<close> is
  not under the prefix \<open>/rdnsv3/example/lb/1_2_3_4/\<close> that the rewritten name is looked
  up with, so the query ends with \<open>errKeyNotFound\<close> and returns no Service.
\<close>

theorem Records_S1_counterexample:
  "Records \<lparr>Zones = [''lb.example.''], PathPrefix = ''rdnsv3'', WildcardBound = 3\<rparr>
     \<lparr>pairs = [\<lparr>Key = ''rdnsv3/example/lb/*/1_2_3_4'', Value = ''{\"host\":\"1.2.3.4\"}'',
                Lease = 100\<rparr>], reachable = True\<rparr>
     ''foo.bar.baz.1_2_3_4.lb.example.'' TypeA False
   = Inl errKeyNotFound"
  using S1_not_found [of "''rdnsv3/example/lb/*/1_2_3_4''"]
  by (simp add: S1_config_def store_of_def S1_pair_def S1_query_def)

subsection \<open>Values that do not decode\<close>

lemma loopNodes_loop_offending:
  "find (offending nameParts star) kv = Some n \<Longrightarrow>
   loopNodes_loop kv nameParts star qType bx sx = Inl (errUnmarshal (Key n))"
proof (induction kv arbitrary: bx sx)
  case Nil
  then show ?case by simp
next
  case (Cons m kv)
  show ?case
  proof (cases "offending nameParts star m")
    case True
    with Cons.prems have "n = m" by simp
    with True show ?thesis by (auto simp: offending_def)
  next
    case False
    with Cons.prems have "find (offending nameParts star) kv = Some n" by simp
    then have ih: "\<And>bx sx. loopNodes_loop kv nameParts star qType bx sx = Inl (errUnmarshal (Key n))"
      by (rule Cons.IH)
    have "loopNodes_loop (m # kv) nameParts star qType bx sx = Inl (errUnmarshal (Key n))
        \<or> Unmarshal_Service (Value m) Service_zero = None
            \<and> (\<not> star \<or> nameParts_match (Split CHR ''/'' (Key m)) nameParts)"
      by (simp only: loopNodes_loop.simps ih Let_def) (simp split: option.splits)
    with False show ?thesis
      by (auto simp: offending_def)
  qed
qed

lemma host1_good_value:
  "Unmarshal_Service ''{\"host\":\"1.1.1.1\"}'' Service_zero
     = Some \<lparr>Host = ''1.1.1.1'', Text = [], TTL_s = 0, Priority = 0, Mail = False, Key_s = []\<rparr>"
  by (simp add: Unmarshal_Service_def json_eval decode_struct_def Service_field_def key_is_def
      to_lower_def as_string_def Service_zero_def)

lemma host1_bad_value: "Unmarshal_Service ''{\"host\":'' Service_zero = None"
  by (simp add: Unmarshal_Service_def json_eval)

lemma host1_wildcard:
  "wildcard_name S1_config (store_of [host1_good, host1_bad]) ''host1.lb.example.'' TypeA
     = Inr ''host1.lb.example.''"
  by (simp add: wildcard_name_def S1_config_def codec_eval TypeA_def TypeTXT_def)

lemma host1_path:
  "PathWithWildcard ''host1.lb.example.'' ''rdnsv3'' = (''/rdnsv3/example/lb/host1'', False)"
  by (simp add: codec_eval)

lemma host1_segments:
  "Split CHR ''/'' (Path ''host1.lb.example.'' ''rdnsv3'')
     = [[], ''rdnsv3'', ''example'', ''lb'', ''host1'']"
  by (simp add: codec_eval)

lemma host1_get:
  "get (store_of [host1_good, host1_bad]) ''/rdnsv3/example/lb/host1'' True
     = Inr [host1_good, host1_bad]"
  by (simp add: get_def store_of_def host1_good_def host1_bad_def Client_Get_def HasSuffix_def)

lemma host1_filter:
  "filterKvs S1_config [host1_good, host1_bad] [[], ''rdnsv3'', ''example'', ''lb'', ''host1''] TypeA
     = Inr [host1_good, host1_bad]"
  by (simp add: filterKvs_def filterKvs_keep_def host1_good_def host1_bad_def Let_def
      MatchString_ipv4_def)

lemma host1_offending:
  "find (offending [[], ''rdnsv3'', ''example'', ''lb'', ''host1''] False) [host1_good, host1_bad]
     = Some host1_bad"
  by (simp add: offending_def host1_good_def host1_bad_def host1_good_value host1_bad_value)

lemma host1_not_zone:
  "\<not> list_ex (\<lambda>zone. HasPrefix ''host1.lb.example.'' zone) (Zones S1_config)"
  by (simp add: S1_config_def)

lemma host1_loopNodes:
  "loopNodes [host1_good, host1_bad] [[], ''rdnsv3'', ''example'', ''lb'', ''host1''] False TypeA
     = Inl (errUnmarshal ''/rdnsv3/example/lb/host1/2_2_2_2'')"
  by (simp add: loopNodes_def host1_good_def host1_bad_def host1_good_value host1_bad_value
      TTL_def ttl_def priority_def shouldInclude_def TypeA_def TypeTXT_def Let_def)

text \<open>
  C4, as the code has it. When a Records query reaches \<open>loopNodes\<close> (the name is no zone,
  the lookup and the sibling filter succeed with the pairs \<open>kvs\<close>) and \<open>n\<close> is the first
  of these pairs that the loop reaches and whose value does not decode, the whole query
  fails with the error that names the key of \<open>n\<close>: no Service is returned, also not
  those of the pairs that decode.
\<close>

theorem Records_decode_error:
  assumes "\<not> list_ex (\<lambda>zone. HasPrefix qname zone) (Zones e)"
    and "wildcard_name e st qname qType = Inr name"
    and "get st (fst (PathWithWildcard name (PathPrefix e))) (\<not> exact) = Inr r"
    and "filterKvs e r (Split CHR ''/'' (Path name (PathPrefix e))) qType = Inr kvs"
    and "find (offending (Split CHR ''/'' (Path name (PathPrefix e)))
                 (snd (PathWithWildcard name (PathPrefix e)))) kvs = Some n"
  shows "Records e st qname qType exact = Inl (errUnmarshal (Key n))"
proof (cases "PathWithWildcard name (PathPrefix e)")
  case (Pair path star)
  with assms show ?thesis
    by (simp add: Records_def loopNodes_def loopNodes_loop_offending Let_def)
qed

theorem Records_decode_error_witness:
  "find (offending [[], ''rdnsv3'', ''example'', ''lb'', ''host1''] False) [host1_good, host1_bad]
     = Some host1_bad
   \<and> Records S1_config (store_of [host1_good, host1_bad]) ''host1.lb.example.'' TypeA False
     = Inl (errUnmarshal (Key host1_bad))"
proof -
  have "Records S1_config (store_of [host1_good, host1_bad]) ''host1.lb.example.'' TypeA False
     = Inl (errUnmarshal (Key host1_bad))"
  proof (rule Records_decode_error [OF host1_not_zone host1_wildcard])
    show "get (store_of [host1_good, host1_bad])
            (fst (PathWithWildcard ''host1.lb.example.'' (PathPrefix S1_config))) (\<not> False)
          = Inr [host1_good, host1_bad]"
      by (simp add: S1_prefix host1_path host1_get)
    show "filterKvs S1_config [host1_good, host1_bad]
            (Split CHR ''/'' (Path ''host1.lb.example.'' (PathPrefix S1_config))) TypeA
          = Inr [host1_good, host1_bad]"
      by (simp only: S1_prefix host1_segments host1_filter)
    show "find (offending (Split CHR ''/'' (Path ''host1.lb.example.'' (PathPrefix S1_config)))
                 (snd (PathWithWildcard ''host1.lb.example.'' (PathPrefix S1_config))))
            [host1_good, host1_bad] = Some host1_bad"
      by (simp only: S1_prefix host1_segments host1_path snd_conv host1_offending)
  qed
  then show ?thesis
    by (simp only: host1_offending simp_thms)
qed

text \<open>
  Two records under \<open>host1.lb.example.\<close>, the first well-formed, the second malformed:
  the query does not return the Service of the first, it fails.
\<close>

theorem Records_skips_malformed_counterexample:
  "Unmarshal_Service (Value host1_good) Service_zero
     = Some \<lparr>Host = ''1.1.1.1'', Text = [], TTL_s = 0, Priority = 0, Mail = False, Key_s = []\<rparr>
   \<and> Unmarshal_Service (Value host1_bad) Service_zero = None
   \<and> Records S1_config (store_of [host1_good, host1_bad]) ''host1.lb.example.'' TypeA False
     = Inl (errUnmarshal ''/rdnsv3/example/lb/host1/2_2_2_2'')"
proof -
  have "Records S1_config (store_of [host1_good, host1_bad]) ''host1.lb.example.'' TypeA False
     = Inl (errUnmarshal ''/rdnsv3/example/lb/host1/2_2_2_2'')"
    unfolding Records_def host1_wildcard S1_prefix
    using host1_not_zone
    by (simp add: host1_path host1_segments host1_get host1_filter host1_loopNodes)
  then show ?thesis
    by (simp add: host1_good_def host1_bad_def host1_good_value host1_bad_value)
qed

section \<open>Properties of the stores\<close>

subsection \<open>Renewing a frozen prefix\<close>

lemma frozen_path:
  "path_Join [''/var/rdns'', ''frozen-prefix'', ''abc'']
     = Some (True, [''var'', ''rdns'', ''frozen-prefix'', ''abc''])"
  by (simp add: path_eval)

lemma frozen_doc: "json_parse ''{\"createdOn\":1000}'' = Some (JObj [(''createdOn'', JNum 1000)])"
  by (simp add: json_eval)

lemma frozen_stat:
  "stat disk_frozen (Some (True, [''var'', ''rdns'', ''frozen-prefix'', ''abc'']))
     = File ''{\"createdOn\":1000}''"
  by (simp add: disk_frozen_def stat_def)

lemma frozen_renew_result:
  "fst (RenewFrozen (OnFilesystem rdns_fs disk_frozen) ''abc'' 2000) = None"
  by (simp add: RenewFrozen_def GetValue_def Filesystem_GetValue_def rdns_fs_def value_types
      frozen_path frozen_stat Unmarshal_def frozen_doc)

lemma frozen_read:
  "Filesystem_GetValue (decode_struct FrozenPrefix_field) rdns_fs disk_frozen ''abc''
     FrozenPrefixValueType (Some \<lparr>Token_fp = [], CreatedOn_fp = 0\<rparr>)
   = (''{\"createdOn\":1000}'', None, Some \<lparr>Token_fp = [], CreatedOn_fp = 1000\<rparr>)"
  by (simp add: Filesystem_GetValue_def rdns_fs_def value_types frozen_path frozen_stat
      Unmarshal_def frozen_doc decode_eval FrozenPrefix_field_def)

text \<open>
  C3. The code does not do what the claim says. \<open>RenewFrozen\<close> passes a nil pointer to
  \<open>GetValue\<close>, which cannot store through it, so \<open>metadata == nil\<close> holds after the call
  and the function returns before it writes: on every store, for every prefix and at
  every time, the store after \<open>RenewFrozen\<close> is the store before it.
\<close>

theorem RenewFrozen_never_writes:
  "snd (RenewFrozen store prefix now) = store"
proof (cases "GetValue (decode_struct FrozenPrefix_field) store prefix FrozenPrefixValueType None")
  case (fields s err metadata)
  with GetValue_nil [of "decode_struct FrozenPrefix_field" store prefix FrozenPrefixValueType]
  have "metadata = None" by simp
  with fields show ?thesis
    by (simp add: RenewFrozen_def split: option.splits)
qed

text \<open>
  The frozen prefix \<open>abc\<close>, created at time 1000 and renewed at time 2000: the call
  succeeds, the store is unchanged and the stored \<open>createdOn\<close> is still 1000.
\<close>

theorem RenewFrozen_never_writes_witness:
  "RenewFrozen (OnFilesystem rdns_fs disk_frozen) ''abc'' 2000
     = (None, OnFilesystem rdns_fs disk_frozen)
   \<and> Filesystem_GetValue (decode_struct FrozenPrefix_field) rdns_fs disk_frozen ''abc''
        FrozenPrefixValueType (Some \<lparr>Token_fp = [], CreatedOn_fp = 0\<rparr>)
      = (''{\"createdOn\":1000}'', None, Some \<lparr>Token_fp = [], CreatedOn_fp = 1000\<rparr>)"
  using RenewFrozen_never_writes [of "OnFilesystem rdns_fs disk_frozen" "''abc''" 2000]
    frozen_renew_result
  by (simp add: prod_eq_iff frozen_read)

subsection \<open>Creating over an existing value\<close>

lemma cluster_token_Get:
  "k8s_Get cluster_token (namespace rdns_k8s, generateName md5hex_names ''a.lb.example'' TokenValueType)
     = Inr cm_token"
  by (simp add: k8s_Get_def cluster_token_def rdns_k8s_def generateName_def md5hex_names_def
      value_types)

lemma disk_token_stat:
  "stat disk_token (path_Join [path rdns_fs, TokenValueType, ''a.lb.example''])
     = File ''{\"token\":\"abcdefgh\",\"fqdn\":\"a.lb.example\",\"createdOn\":1000}''"
  by (simp add: rdns_fs_def value_types token_path) (simp add: disk_token_def stat_def)

text \<open>
  C6. The claim holds on the file system and fails on config maps. \<open>SetValue\<close> of the
  file-system store fails with \<open>errExist\<close> on a name whose file exists and leaves the
  file system as it is. \<open>SetValue\<close> of the config-map store on a name whose config map
  exists returns no error and replaces the stored document: \<open>writeValue\<close> never reads
  its argument \<open>update\<close>.
\<close>

theorem SetValue_on_existing:
  "(stat d (path_Join [path fs, valueType, name]) = File old \<longrightarrow>
      Filesystem_SetValue fs d name valueType metadata = (Some errExist, d))
   \<and> (k8s_Get c (namespace s, generateName md5hex name valueType) = Inr cm
        \<and> Namespace cm = namespace s \<and> Name cm = generateName md5hex name valueType \<longrightarrow>
      fst (K8sStore_SetValue md5hex s c name valueType metadata) = None
      \<and> map_option (\<lambda>cm'. index (Data cm') ''data'')
           (map_of (objects (snd (K8sStore_SetValue md5hex s c name valueType metadata)))
              (namespace s, generateName md5hex name valueType))
          = Some (json_text metadata))"
proof -
  have "Filesystem_SetValue fs d name valueType metadata = (Some errExist, d)"
    if "stat d (path_Join [path fs, valueType, name]) = File old"
    using that by (simp add: Filesystem_SetValue_def Filesystem_writeValue_def OpenFile_def)
  moreover have "fst (K8sStore_SetValue md5hex s c name valueType metadata) = None
      \<and> map_option (\<lambda>cm'. index (Data cm') ''data'')
           (map_of (objects (snd (K8sStore_SetValue md5hex s c name valueType metadata)))
              (namespace s, generateName md5hex name valueType))
          = Some (json_text metadata)"
    if "k8s_Get c (namespace s, generateName md5hex name valueType) = Inr cm"
      and "Namespace cm = namespace s" and "Name cm = generateName md5hex name valueType"
    using that
    by (auto simp: K8sStore_SetValue_def K8sStore_writeValue_def K8sStore_fill_def k8s_Get_def
        k8s_Update_def Let_def map_of_put index_put split: if_splits option.splits)
  ultimately show ?thesis by blast
qed

text \<open>
  The token of \<open>a.lb.example\<close> is stored and a second token is created under the same
  name: the file system refuses it, the cluster stores it over the first.
\<close>

theorem SetValue_on_existing_witness:
  "Filesystem_SetValue rdns_fs disk_token ''a.lb.example'' TokenValueType (Token_json token_new)
     = (Some errExist, disk_token)
   \<and> fst (K8sStore_SetValue md5hex_names rdns_k8s cluster_token ''a.lb.example'' TokenValueType
            (Token_json token_new)) = None
   \<and> map_option (\<lambda>cm'. index (Data cm') ''data'')
        (map_of (objects (snd (K8sStore_SetValue md5hex_names rdns_k8s cluster_token ''a.lb.example''
                                 TokenValueType (Token_json token_new))))
           (''rdns'', ''8810385cf1c310a6d1b17380825705f5-token''))
      = Some ''{\"token\":\"x\",\"fqdn\":\"a.lb.example\",\"createdOn\":2000}''"
proof -
  have n: "namespace rdns_k8s = ''rdns''"
    and g: "generateName md5hex_names ''a.lb.example'' TokenValueType
              = ''8810385cf1c310a6d1b17380825705f5-token''"
    and cm: "Namespace cm_token = ''rdns''" "Name cm_token = ''8810385cf1c310a6d1b17380825705f5-token''"
    by (simp_all add: rdns_k8s_def generateName_def md5hex_names_def value_types cm_token_def)
  from SetValue_on_existing [of disk_token rdns_fs TokenValueType "''a.lb.example''" _
      "Token_json token_new" cluster_token rdns_k8s md5hex_names cm_token]
    disk_token_stat cluster_token_Get
  show ?thesis
    by (simp add: n g cm token_new_text)
qed

subsection \<open>Listing the sub-A records of a token\<close>

lemma ListSubA_loop_any_id:
  "ListSubA_loop store tid names rs = ListSubA_loop store tid' names rs"
  by (induction names arbitrary: rs) (auto split: sum.splits)

lemma suba_list:
  "ListValues (OnFilesystem rdns_fs disk_suba) SubARecordValueType
     = Inr [''x.a.lb.example'', ''y.b.lb.example'']"
  by (simp add: ListValues_def Filesystem_ListValues_def ReadDir_def rdns_fs_def disk_suba_def
      rdns_dirs_def value_types path_eval stat_def is_dir_def parent_def)

lemma suba_1_doc:
  "json_parse ''{\"fqdn\":\"x.a.lb.example\",\"hosts\":[\"1.1.1.1\"],\"tid\":1}''
     = Some (JObj [(''fqdn'', JStr ''x.a.lb.example''), (''hosts'', JArr [JStr ''1.1.1.1'']),
                   (''tid'', JNum 1)])"
  by (simp add: json_eval)

lemma suba_2_doc:
  "json_parse ''{\"fqdn\":\"y.b.lb.example\",\"hosts\":[\"2.2.2.2\"],\"tid\":2}''
     = Some (JObj [(''fqdn'', JStr ''y.b.lb.example''), (''hosts'', JArr [JStr ''2.2.2.2'']),
                   (''tid'', JNum 2)])"
  by (simp add: json_eval)

lemma suba_1_query: "QuerySubA (OnFilesystem rdns_fs disk_suba) ''x.a.lb.example'' = Inr suba_1"
  by (simp add: QuerySubA_def GetValue_def Filesystem_GetValue_def rdns_fs_def value_types path_eval)
     (simp add: disk_suba_def stat_def Unmarshal_def suba_1_doc decode_eval SubRecordA_field_def
        SubRecordA_zero_def suba_1_def)

lemma suba_2_query: "QuerySubA (OnFilesystem rdns_fs disk_suba) ''y.b.lb.example'' = Inr suba_2"
  by (simp add: QuerySubA_def GetValue_def Filesystem_GetValue_def rdns_fs_def value_types path_eval)
     (simp add: disk_suba_def stat_def Unmarshal_def suba_2_doc decode_eval SubRecordA_field_def
        SubRecordA_zero_def suba_2_def)

text \<open>
  C7. The code does not do what the claim says. \<open>ListSubA\<close> never compares the \<open>TID\<close> of
  a record with its argument (\<open>QueryExpiredTXTs\<close> does): its result is the same for every
  token id.
\<close>

theorem ListSubA_ignores_id:
  "ListSubA store tid = ListSubA store tid'"
  by (simp add: ListSubA_def ListSubA_loop_any_id [of store tid _ _ tid'] split: sum.splits)

text \<open>
  Two sub-A records, of the token ids 1 and 2: \<open>ListSubA\<close> returns both for the token id
  1, and the same for the token id 2.
\<close>

theorem ListSubA_ignores_id_witness:
  "ListSubA (OnFilesystem rdns_fs disk_suba) 1 = Inr [suba_1, suba_2]
   \<and> ListSubA (OnFilesystem rdns_fs disk_suba) 2 = Inr [suba_1, suba_2]
   \<and> TID_a suba_1 = 1 \<and> TID_a suba_2 = 2"
proof -
  have "ListSubA (OnFilesystem rdns_fs disk_suba) 1 = Inr [suba_1, suba_2]"
    by (simp add: ListSubA_def suba_list suba_1_query suba_2_query)
  with ListSubA_ignores_id [of "OnFilesystem rdns_fs disk_suba" 2 1] show ?thesis
    by (simp add: suba_1_def suba_2_def)
qed

subsection \<open>Reading after an update\<close>

lemma garbage_doc:
  "json_parse ''{\"token\":\"x\",\"fqdn\":\"a.lb.example\",\"createdOn\":2000}\":1000}'' = None"
  by (simp add: json_eval)

lemma update_shorter:
  "Filesystem_UpdateValue rdns_fs disk_token ''a.lb.example'' TokenValueType (Token_json token_new)
     = (None, disk_token\<lparr>files :=
          [((True, [''var'', ''rdns'', ''token'', ''a.lb.example'']),
            ''{\"token\":\"x\",\"fqdn\":\"a.lb.example\",\"createdOn\":2000}\":1000}'')]\<rparr>)"
  by (simp add: Filesystem_UpdateValue_def Filesystem_writeValue_def rdns_fs_def value_types
        token_path OpenFile_def)
     (simp add: disk_token_def stat_def token_new_text Write_def)

lemma get_after_update:
  "Filesystem_GetValue (decode_struct Token_field) rdns_fs
     (disk_token\<lparr>files :=
          [((True, [''var'', ''rdns'', ''token'', ''a.lb.example'']),
            ''{\"token\":\"x\",\"fqdn\":\"a.lb.example\",\"createdOn\":2000}\":1000}'')]\<rparr>)
     ''a.lb.example'' TokenValueType (Some Token_zero)
   = ([], Some errSyntax, Some Token_zero)"
  by (simp add: Filesystem_GetValue_def rdns_fs_def value_types token_path)
     (simp add: stat_def Unmarshal_def garbage_doc)

text \<open>
  C8. The code does not do what the claim says. \<open>writeValue\<close> opens the file without
  \<open>O_TRUNC\<close> and writes at its start, so the end of a longer value stays in the file.
  The token of \<open>a.lb.example\<close> is updated to a token whose document is 7 bytes shorter:
  the update succeeds, the file holds the new document followed by the last 7 bytes of
  the old one, and \<open>GetValue\<close> fails with a syntax error.
\<close>

theorem UpdateValue_shorter_then_GetValue:
  "json_text (Token_json token_new) = ''{\"token\":\"x\",\"fqdn\":\"a.lb.example\",\"createdOn\":2000}''
   \<and> fst (Filesystem_UpdateValue rdns_fs disk_token ''a.lb.example'' TokenValueType
            (Token_json token_new)) = None
   \<and> files (snd (Filesystem_UpdateValue rdns_fs disk_token ''a.lb.example'' TokenValueType
                   (Token_json token_new)))
      = [((True, [''var'', ''rdns'', ''token'', ''a.lb.example'']),
          ''{\"token\":\"x\",\"fqdn\":\"a.lb.example\",\"createdOn\":2000}\":1000}'')]
   \<and> Filesystem_GetValue (decode_struct Token_field) rdns_fs
        (snd (Filesystem_UpdateValue rdns_fs disk_token ''a.lb.example'' TokenValueType
                (Token_json token_new)))
        ''a.lb.example'' TokenValueType (Some Token_zero)
      = ([], Some errSyntax, Some Token_zero)"
  by (simp add: update_shorter get_after_update token_new_text)

subsection \<open>Querying a token that is not stored\<close>

lemma QueryToken_absent_fs:
  assumes "stat d (path_Join [path fs, TokenValueType, name]) = NoEnt"
  shows "QueryToken (OnFilesystem fs d) name
           = Inr \<lparr>ID_m = 0, Token_m = [], Fqdn_m = [], CreatedOn_m = 0\<rparr>"
  using assms
  by (simp add: QueryToken_def GetValue_def Filesystem_GetValue_def Token_zero_fields)

lemma QueryToken_absent_k8s:
  assumes "up c"
    and "map_of (objects c) (namespace s, generateName md5hex name TokenValueType) = None"
  shows "QueryToken (OnK8s md5hex s c) name
           = Inr \<lparr>ID_m = 0, Token_m = [], Fqdn_m = [], CreatedOn_m = 0\<rparr>"
  using assms
  by (simp add: QueryToken_def GetValue_def K8sStore_GetValue_def k8s_Get_def Token_zero_fields)

lemma QueryToken_empty_fs:
  assumes "stat d (path_Join [path fs, TokenValueType, name]) = NoEnt"
    and "fst (SetValue (OnFilesystem fs d) name TokenValueType (Token_json Token_zero)) = None"
  shows "QueryToken (snd (SetValue (OnFilesystem fs d) name TokenValueType (Token_json Token_zero))) name
     = Inr \<lparr>ID_m = 0, Token_m = [], Fqdn_m = [], CreatedOn_m = 0\<rparr>"
proof (cases "path_Join [path fs, TokenValueType, name]")
  case None
  with assms show ?thesis
    by (simp add: SetValue_def Filesystem_SetValue_def Filesystem_writeValue_def OpenFile_def stat_def)
next
  case (Some p)
  with assms have "snd (SetValue (OnFilesystem fs d) name TokenValueType (Token_json Token_zero))
      = OnFilesystem fs (d\<lparr>files := put p ''{}'' (files d)\<rparr>)"
    by (auto simp: SetValue_def Filesystem_SetValue_def Filesystem_writeValue_def OpenFile_def
        Token_zero_text Write_def split: node.splits sum.splits)
  then show ?thesis
    by (simp add: QueryToken_def GetValue_def Filesystem_GetValue_def Some stat_put
        Unmarshal_empty Token_zero_fields)
qed

lemma QueryToken_empty_k8s:
  assumes "up c"
    and "map_of (objects c) (namespace s, generateName md5hex name TokenValueType) = None"
    and "fst (SetValue (OnK8s md5hex s c) name TokenValueType (Token_json Token_zero)) = None"
  shows "QueryToken (snd (SetValue (OnK8s md5hex s c) name TokenValueType (Token_json Token_zero))) name
     = Inr \<lparr>ID_m = 0, Token_m = [], Fqdn_m = [], CreatedOn_m = 0\<rparr>"
  using assms
  by (simp add: SetValue_def K8sStore_SetValue_def K8sStore_writeValue_def K8sStore_fill_def
      k8s_Get_def k8s_Create_def Let_def QueryToken_def GetValue_def K8sStore_GetValue_def
      map_of_put index_def Token_zero_text Unmarshal_empty Token_zero_fields)

text \<open>
  C10. On both stores, when the backend is available and nothing is stored under the
  name and the value type \<open>token\<close>, \<open>QueryToken\<close> returns a Token whose ID, Token, Fqdn
  and CreatedOn are zero values, and no error. The result does not tell the missing
  token from a stored one whose fields are all empty: after such a token has been
  stored under the name, \<open>QueryToken\<close> returns the same.
\<close>

theorem QueryToken_absent:
  "available store \<Longrightarrow> \<not> stored store name TokenValueType \<Longrightarrow>
     QueryToken store name = Inr \<lparr>ID_m = 0, Token_m = [], Fqdn_m = [], CreatedOn_m = 0\<rparr>
     \<and> (fst (SetValue store name TokenValueType (Token_json Token_zero)) = None \<longrightarrow>
          QueryToken (snd (SetValue store name TokenValueType (Token_json Token_zero))) name
            = QueryToken store name)"
proof (cases store)
  case (OnFilesystem fs d)
  assume "\<not> stored store name TokenValueType"
  with OnFilesystem have "stat d (path_Join [path fs, TokenValueType, name]) = NoEnt"
    by (simp add: stored_def)
  with OnFilesystem show ?thesis
    by (simp add: QueryToken_absent_fs QueryToken_empty_fs)
next
  case (OnK8s md5hex s c)
  assume "available store" and "\<not> stored store name TokenValueType"
  with OnK8s have "up c"
    "map_of (objects c) (namespace s, generateName md5hex name TokenValueType) = None"
    by (simp_all add: stored_def available_def)
  with OnK8s show ?thesis
    by (simp add: QueryToken_absent_k8s QueryToken_empty_k8s)
qed

lemma b_not_stored_fs: "\<not> stored (OnFilesystem rdns_fs disk_token) ''b.lb.example'' TokenValueType"
  by (simp add: stored_def rdns_fs_def value_types path_eval)
     (simp add: disk_token_def rdns_dirs_def value_types stat_def is_dir_def through_file_def)

lemma b_not_stored_k8s:
  "\<not> stored (OnK8s md5hex_names rdns_k8s cluster_token) ''b.lb.example'' TokenValueType"
  by (simp add: stored_def rdns_k8s_def cluster_token_def generateName_def md5hex_names_def value_types)

lemma b_set_fs:
  "fst (SetValue (OnFilesystem rdns_fs disk_token) ''b.lb.example'' TokenValueType (Token_json Token_zero)) = None"
  by (simp add: SetValue_def Filesystem_SetValue_def Filesystem_writeValue_def rdns_fs_def
        value_types path_eval split: prod.splits)
     (simp add: disk_token_def rdns_dirs_def value_types OpenFile_def stat_def is_dir_def
        through_file_def parent_def)

lemma b_set_k8s:
  "fst (SetValue (OnK8s md5hex_names rdns_k8s cluster_token) ''b.lb.example'' TokenValueType (Token_json Token_zero)) = None"
  by (simp add: SetValue_def K8sStore_SetValue_def K8sStore_writeValue_def K8sStore_fill_def
        rdns_k8s_def cluster_token_def generateName_def md5hex_names_def value_types
        k8s_Get_def k8s_Create_def Let_def split: prod.splits)

text \<open>
  No token is stored for \<open>b.lb.example\<close>, on the file system and in the cluster: the
  query returns the zero Token, before and after an empty token is stored for it.
\<close>

theorem QueryToken_absent_witness:
  "QueryToken (OnFilesystem rdns_fs disk_token) ''b.lb.example''
     = Inr \<lparr>ID_m = 0, Token_m = [], Fqdn_m = [], CreatedOn_m = 0\<rparr>
   \<and> QueryToken (snd (SetValue (OnFilesystem rdns_fs disk_token) ''b.lb.example'' TokenValueType
                         (Token_json Token_zero))) ''b.lb.example''
     = Inr \<lparr>ID_m = 0, Token_m = [], Fqdn_m = [], CreatedOn_m = 0\<rparr>
   \<and> QueryToken (OnK8s md5hex_names rdns_k8s cluster_token) ''b.lb.example''
     = Inr \<lparr>ID_m = 0, Token_m = [], Fqdn_m = [], CreatedOn_m = 0\<rparr>
   \<and> QueryToken (snd (SetValue (OnK8s md5hex_names rdns_k8s cluster_token) ''b.lb.example''
                         TokenValueType (Token_json Token_zero))) ''b.lb.example''
     = Inr \<lparr>ID_m = 0, Token_m = [], Fqdn_m = [], CreatedOn_m = 0\<rparr>"
proof -
  have a: "available (OnFilesystem rdns_fs disk_token)"
    "available (OnK8s md5hex_names rdns_k8s cluster_token)"
    by (simp_all add: available_def cluster_token_def)
  from QueryToken_absent [OF a(1) b_not_stored_fs] QueryToken_absent [OF a(2) b_not_stored_k8s]
    b_set_fs b_set_k8s
  show ?thesis by simp
qed

subsection \<open>The partitions of the value types\<close>

lemma clean_elems_append:
  "clean_elems r (xs @ ys) out = clean_elems r ys (clean_elems r xs out)"
  by (induction xs arbitrary: out) auto

lemma clean_elems_ok:
  "elem_ok t \<Longrightarrow> clean_elems r (t # cs) out = clean_elems r cs (out @ [t])"
  by (simp add: elem_ok_def clean_elem_def)

lemma clean_one: "elem_ok t \<Longrightarrow> clean_elems r [t] out = out @ [t]"
  by (simp add: elem_ok_def clean_elem_def)

lemma clean_two: "elem_ok t \<Longrightarrow> elem_ok n \<Longrightarrow> clean_elems r [t, n] out = out @ [t, n]"
  by (simp add: elem_ok_def clean_elem_def)

lemma HasPrefix_slash_append: "base \<noteq> [] \<Longrightarrow> HasPrefix (base @ s) ''/'' = HasPrefix base ''/''"
  by (cases base) auto

lemma elem_ok_not_rooted: "elem_ok t \<Longrightarrow> \<not> HasPrefix (t @ s) ''/''"
  by (cases t) (auto simp: elem_ok_def clean_elem_def)

lemma elem_ok_Split: "elem_ok t \<Longrightarrow> Split CHR ''/'' t = [t]"
  by (simp add: elem_ok_def clean_elem_def Split_no_sep)

lemma Split_join2:
  "elem_ok t \<Longrightarrow> Split CHR ''/'' (base @ CHR ''/'' # t) = Split CHR ''/'' base @ [t]"
  by (simp add: Split_append_sep elem_ok_Split)

lemma Split_join3:
  "elem_ok t \<Longrightarrow> elem_ok n \<Longrightarrow>
   Split CHR ''/'' (base @ CHR ''/'' # t @ CHR ''/'' # n) = Split CHR ''/'' base @ [t, n]"
  by (simp add: Split_append_sep elem_ok_Split)

lemma path_Join_elems:
  "\<exists>r st. \<forall>t n. elem_ok t \<longrightarrow> elem_ok n \<longrightarrow>
      path_Join [base, t] = Some (r, st @ [t]) \<and> path_Join [base, t, n] = Some (r, st @ [t, n])"
proof (cases "base = []")
  case True
  have "path_Join [base, t] = Some (False, [] @ [t]) \<and> path_Join [base, t, n] = Some (False, [] @ [t, n])"
    if "elem_ok t" "elem_ok n" for t n
  proof -
    from that have ne: "t \<noteq> []" by (simp add: elem_ok_def clean_elem_def)
    have s: "Split CHR ''/'' (t @ CHR ''/'' # n) = [t, n]"
      using that by (simp add: Split_append_sep elem_ok_Split)
    show ?thesis
      using True ne that elem_ok_not_rooted [OF that(1), of "[]"]
        elem_ok_not_rooted [OF that(1), of "CHR ''/'' # n"]
      by (simp add: path_Join_def path_Clean_def s elem_ok_Split clean_one clean_two
          del: clean_elems.simps)
  qed
  then show ?thesis by blast
next
  case False
  let ?r = "HasPrefix base ''/''"
  let ?st = "clean_elems ?r (Split CHR ''/'' base) []"
  have "path_Join [base, t] = Some (?r, ?st @ [t]) \<and> path_Join [base, t, n] = Some (?r, ?st @ [t, n])"
    if "elem_ok t" "elem_ok n" for t n
    using False that HasPrefix_slash_append [OF False]
    by (simp add: path_Join_def path_Clean_def Split_join2 Split_join3 clean_elems_append
        clean_one clean_two del: clean_elems.simps)
  then show ?thesis by blast
qed

lemma same_except_refl: "same_except F d d"
  by (simp add: same_except_def)

lemma filter_put_other:
  "filter (\<lambda>q. q \<noteq> F) (map fst (put F c m)) = filter (\<lambda>q. q \<noteq> F) (map fst m)"
  by (induction m) auto

lemma filter_remove_other:
  "filter (\<lambda>q. q \<noteq> F) (map fst (remove F m)) = filter (\<lambda>q. q \<noteq> F) (map fst m)"
  by (induction m) (auto simp: remove_def)

lemma same_except_put: "same_except F d (d\<lparr>files := put F c (files d)\<rparr>)"
  by (simp add: same_except_def map_of_put filter_put_other)

lemma same_except_remove: "same_except F d (d\<lparr>files := remove F (files d)\<rparr>)"
  by (simp add: same_except_def map_of_remove filter_remove_other)

lemma writeValue_same_except:
  "path_Join [path fs, t, n] = Some F \<Longrightarrow>
   same_except F d (snd (Filesystem_writeValue fs d n t v u))"
  by (auto simp: Filesystem_writeValue_def Let_def same_except_refl same_except_put
      split: sum.splits)

lemma DeleteValue_same_except:
  "path_Join [path fs, t, n] = Some F \<Longrightarrow>
   same_except F d (snd (Filesystem_DeleteValue fs d n t))"
  by (auto simp: Filesystem_DeleteValue_def Let_def same_except_refl same_except_remove
      split: sum.splits bool.splits)

lemma mutate_fs:
  assumes "path_Join [path fs, t, mutation_name mu] = Some F"
  shows "\<exists>d'. mutate (OnFilesystem fs d) t mu = OnFilesystem fs d' \<and> same_except F d d'"
proof (cases mu)
  case (Set_of n v)
  with assms have "same_except F d (snd (Filesystem_writeValue fs d n t v False))"
    by (simp add: writeValue_same_except)
  with Set_of show ?thesis
    by (simp add: SetValue_def Filesystem_SetValue_def case_prod_beta)
next
  case (Update_of n v)
  with assms have "same_except F d (snd (Filesystem_writeValue fs d n t v True))"
    by (simp add: writeValue_same_except)
  with Update_of show ?thesis
    by (simp add: UpdateValue_def Filesystem_UpdateValue_def case_prod_beta)
next
  case (Delete_of n)
  with assms have "same_except F d (snd (Filesystem_DeleteValue fs d n t))"
    by (simp add: DeleteValue_same_except)
  with Delete_of show ?thesis
    by (simp add: DeleteValue_def case_prod_beta)
qed

lemma stat_same_except:
  assumes "same_except F d d'" and "q \<noteq> F" and "length (snd q) \<le> length (snd F)"
  shows "stat d' (Some q) = stat d (Some q)"
proof -
  have "(fst q, take k (snd q)) \<noteq> F" if "k < length (snd q)" for k
  proof
    assume "(fst q, take k (snd q)) = F"
    then have "length (snd F) = k" using that by auto
    with that assms(3) show False by simp
  qed
  then have "through_file d' q = through_file d q"
    using assms(1) by (auto simp: through_file_def same_except_def list_ex_iff)
  moreover have "map_of (files d') q = map_of (files d) q" and "dirs d' = dirs d"
    using assms by (cases q; auto simp: same_except_def)+
  ultimately show ?thesis
    by (simp add: stat_def is_dir_def)
qed

lemma filter_through_other:
  assumes "\<not> P F"
  shows "filter P xs = filter P (filter (\<lambda>q. q \<noteq> F) xs)"
  using assms by (induction xs) auto

lemma ReadDir_same_except:
  assumes se: "same_except F d d'"
    and ne: "D \<noteq> F" and len: "length (snd D) \<le> length (snd F)"
    and par: "parent F \<noteq> D"
  shows "ReadDir d' (Some D) = ReadDir d (Some D)"
proof -
  let ?P = "\<lambda>p. snd p \<noteq> [] \<and> last (snd p) \<noteq> ''..'' \<and> Some (parent p) = Some D"
  have nP: "\<not> ?P F" using par by simp
  have "filter ?P (map fst (files d')) = filter ?P (filter (\<lambda>q. q \<noteq> F) (map fst (files d')))"
    by (rule filter_through_other [of ?P F, OF nP])
  also have "\<dots> = filter ?P (filter (\<lambda>q. q \<noteq> F) (map fst (files d)))"
    using se by (simp add: same_except_def)
  also have "\<dots> = filter ?P (map fst (files d))"
    by (rule filter_through_other [of ?P F, OF nP, symmetric])
  finally have f: "filter ?P (map fst (files d')) = filter ?P (map fst (files d))" .
  have dd: "dirs d' = dirs d" using se by (simp add: same_except_def)
  show ?thesis
    unfolding ReadDir_def stat_same_except [OF se ne len]
    by (simp only: filter_append f dd)
qed

lemma Filesystem_GetValue_same:
  assumes "stat d' (path_Join [path fs, t, n]) = stat d (path_Join [path fs, t, n])"
  shows "Filesystem_GetValue dec fs d' n t m = Filesystem_GetValue dec fs d n t m"
  using assms by (simp add: Filesystem_GetValue_def)

lemma expired_loop_same:
  assumes "\<And>n. n \<in> set names \<Longrightarrow>
      stat d' (path_Join [path fs, t, n]) = stat d (path_Join [path fs, t, n])"
  shows "Filesystem_expired_loop fs d' t cutoff names acc = Filesystem_expired_loop fs d t cutoff names acc"
  using assms
proof (induction names arbitrary: acc)
  case Nil
  then show ?case by simp
next
  case (Cons n names)
  have g: "Filesystem_GetValue (decode_struct CreatedOn_field) fs d' n t (Some 0)
      = Filesystem_GetValue (decode_struct CreatedOn_field) fs d n t (Some 0)"
    by (rule Filesystem_GetValue_same) (simp add: Cons.prems)
  have ih: "Filesystem_expired_loop fs d' t cutoff names acc' = Filesystem_expired_loop fs d t cutoff names acc'"
    for acc'
    by (rule Cons.IH) (simp add: Cons.prems)
  show ?case
    by (simp only: Filesystem_expired_loop.simps g ih)
qed

lemma ReadDir_names_ok:
  assumes "wf_disk d" and "ReadDir d D = Inr names" and "n \<in> set names"
  shows "elem_ok n"
proof -
  let ?P = "\<lambda>p. snd p \<noteq> [] \<and> last (snd p) \<noteq> ''..'' \<and> Some (parent p) = D"
  let ?xs = "map fst (files d) @ dirs d"
  from assms(2) have "names = sort (remdups (map (\<lambda>p. last (snd p)) (filter ?P ?xs)))"
    by (simp add: ReadDir_def split: node.splits)
  with assms(3) have "n \<in> set (map (\<lambda>p. last (snd p)) (filter ?P ?xs))"
    by (simp only: set_sort set_remdups)
  then obtain p where "p \<in> set (filter ?P ?xs)" and n: "n = last (snd p)"
    unfolding set_map by blast
  then have p: "p \<in> set ?xs" and P: "?P p"
    unfolding set_filter by blast+
  from assms(1) p have "list_all clean_elem (snd p)"
    unfolding wf_disk_def list_all_iff by blast
  with P have "clean_elem (last (snd p))"
    by (simp add: list_all_iff)
  with P n show ?thesis by (simp add: elem_ok_def)
qed

lemma ValueTypes_elem_ok: "t \<in> set ValueTypes \<Longrightarrow> elem_ok t"
  by (auto simp: value_types elem_ok_def clean_elem_def)

lemma partitions_fs:
  assumes t1: "t1 \<in> set ValueTypes" and t2: "t2 \<in> set ValueTypes" and ne: "t1 \<noteq> t2"
    and wf: "wf_disk d" and n1: "elem_ok (mutation_name mu)" and n2: "elem_ok n2"
  shows "GetValue dec (mutate (OnFilesystem fs d) t1 mu) n2 t2 m = GetValue dec (OnFilesystem fs d) n2 t2 m
       \<and> ListValues (mutate (OnFilesystem fs d) t1 mu) t2 = ListValues (OnFilesystem fs d) t2
       \<and> GetExpiredValues (mutate (OnFilesystem fs d) t1 mu) t2 cutoff
           = GetExpiredValues (OnFilesystem fs d) t2 cutoff"
proof -
  from path_Join_elems [of "path fs"] obtain r st where
    j: "\<And>t n. elem_ok t \<Longrightarrow> elem_ok n \<Longrightarrow>
          path_Join [path fs, t] = Some (r, st @ [t]) \<and> path_Join [path fs, t, n] = Some (r, st @ [t, n])"
    by blast
  have e1: "elem_ok t1" and e2: "elem_ok t2"
    using t1 t2 by (simp_all add: ValueTypes_elem_ok)
  let ?F = "(r, st @ [t1, mutation_name mu])"
  have F: "path_Join [path fs, t1, mutation_name mu] = Some ?F"
    using j [OF e1 n1] by simp
  from mutate_fs [OF F, of d] obtain d' where
    mu: "mutate (OnFilesystem fs d) t1 mu = OnFilesystem fs d'" and se: "same_except ?F d d'"
    by blast
  have neq: "(r, st @ [t2, n]) \<noteq> ?F" for n
    using ne by simp
  have get: "stat d' (path_Join [path fs, t2, n]) = stat d (path_Join [path fs, t2, n])"
    if "elem_ok n" for n
  proof -
    have "path_Join [path fs, t2, n] = Some (r, st @ [t2, n])"
      using j [OF e2 that] by (rule conjunct2)
    moreover have "stat d' (Some (r, st @ [t2, n])) = stat d (Some (r, st @ [t2, n]))"
      by (rule stat_same_except [OF se neq]) simp
    ultimately show ?thesis by (simp only:)
  qed
  have D: "path_Join [path fs, t2] = Some (r, st @ [t2])"
    using j [OF e2 e2] by (rule conjunct1)
  have dn: "(r, st @ [t2]) \<noteq> ?F" and pn: "parent ?F \<noteq> (r, st @ [t2])"
    using ne by (simp_all add: parent_def butlast_append)
  have dir: "ReadDir d' (Some (r, st @ [t2])) = ReadDir d (Some (r, st @ [t2]))"
    by (rule ReadDir_same_except [OF se dn _ pn]) simp
  have exp: "Filesystem_GetExpiredValues fs d' t2 cutoff = Filesystem_GetExpiredValues fs d t2 cutoff"
  proof (cases "ReadDir d (Some (r, st @ [t2]))")
    case (Inl err)
    then show ?thesis
      by (simp only: Filesystem_GetExpiredValues_def D dir sum.case)
  next
    case (Inr names)
    have "Filesystem_expired_loop fs d' t2 cutoff names [] = Filesystem_expired_loop fs d t2 cutoff names []"
    proof (rule expired_loop_same)
      fix n assume "n \<in> set names"
      then have "elem_ok n" by (rule ReadDir_names_ok [OF wf Inr])
      then show "stat d' (path_Join [path fs, t2, n]) = stat d (path_Join [path fs, t2, n])"
        by (rule get)
    qed
    with Inr show ?thesis
      by (simp only: Filesystem_GetExpiredValues_def D dir sum.case)
  qed
  have g: "Filesystem_GetValue dec fs d' n2 t2 m = Filesystem_GetValue dec fs d n2 t2 m"
    by (rule Filesystem_GetValue_same) (rule get [OF n2])
  have l: "Filesystem_ListValues fs d' t2 = Filesystem_ListValues fs d t2"
    by (simp only: Filesystem_ListValues_def D dir)
  show ?thesis
    by (simp only: mu GetValue_def ListValues_def GetExpiredValues_def KeyValueStore.case g l exp
        simp_thms)
qed

lemma generateName_drop:
  "length (md5hex n) = 32 \<Longrightarrow> drop 33 (generateName md5hex n t) = t"
  by (simp add: generateName_def)

lemma generateName_neq:
  assumes "\<forall>name. length (md5hex name) = 32" and "t1 \<noteq> t2"
  shows "generateName md5hex n1 t1 \<noteq> generateName md5hex n2 t2"
proof
  assume "generateName md5hex n1 t1 = generateName md5hex n2 t2"
  then have "drop 33 (generateName md5hex n1 t1) = drop 33 (generateName md5hex n2 t2)"
    by simp
  with assms show False
    by (simp add: generateName_drop)
qed

lemma filter_put_unselected:
  assumes "\<not> Q (k, v)" and "\<forall>e \<in> set m. fst e = k \<longrightarrow> \<not> Q e"
  shows "filter Q (put k v m) = filter Q m"
  using assms by (induction m) auto

lemma filter_remove_unselected:
  assumes "\<forall>e \<in> set m. fst e = k \<longrightarrow> \<not> Q e"
  shows "filter Q (remove k m) = filter Q m"
  using assms by (induction m) (auto simp: remove_def)

lemma fill_label:
  "map_of (Labels (K8sStore_fill name t v cm)) ''rdns-value-type'' = Some t"
  by (simp add: K8sStore_fill_def Let_def map_of_put)

lemma fill_key:
  "Namespace (K8sStore_fill name t v cm) = Namespace cm" "Name (K8sStore_fill name t v cm) = Name cm"
  by (simp_all add: K8sStore_fill_def Let_def)

lemma k8s_put_unobserved:
  assumes len: "\<forall>name. length (md5hex name) = 32" and wf: "list_all wf_object (objects c)"
    and ne: "t1 \<noteq> t2"
    and lab: "map_of (Labels cm) ''rdns-value-type'' = Some t1"
  shows "map_of (put (ns, generateName md5hex n1 t1) cm (objects c)) (ns, generateName md5hex n t2)
           = map_of (objects c) (ns, generateName md5hex n t2)"
    and "filter (\<lambda>e. fst (fst e) = ns \<and> map_of (Labels (snd e)) ''rdns-value-type'' = Some t2)
           (put (ns, generateName md5hex n1 t1) cm (objects c))
         = filter (\<lambda>e. fst (fst e) = ns \<and> map_of (Labels (snd e)) ''rdns-value-type'' = Some t2)
             (objects c)"
proof -
  show "map_of (put (ns, generateName md5hex n1 t1) cm (objects c)) (ns, generateName md5hex n t2)
           = map_of (objects c) (ns, generateName md5hex n t2)"
    using generateName_neq [OF len ne, of n1 n] by (auto simp: map_of_put)
  have "\<forall>e \<in> set (objects c). fst e = (ns, generateName md5hex n1 t1) \<longrightarrow>
          \<not> (fst (fst e) = ns \<and> map_of (Labels (snd e)) ''rdns-value-type'' = Some t2)"
    using wf len ne by (auto simp: list_all_iff wf_object_def generateName_drop)
  then show "filter (\<lambda>e. fst (fst e) = ns \<and> map_of (Labels (snd e)) ''rdns-value-type'' = Some t2)
           (put (ns, generateName md5hex n1 t1) cm (objects c))
         = filter (\<lambda>e. fst (fst e) = ns \<and> map_of (Labels (snd e)) ''rdns-value-type'' = Some t2)
             (objects c)"
    using lab ne by (intro filter_put_unselected) simp_all
qed

lemma k8s_remove_unobserved:
  assumes len: "\<forall>name. length (md5hex name) = 32" and wf: "list_all wf_object (objects c)"
    and ne: "t1 \<noteq> t2"
  shows "map_of (remove (ns, generateName md5hex n1 t1) (objects c)) (ns, generateName md5hex n t2)
           = map_of (objects c) (ns, generateName md5hex n t2)"
    and "filter (\<lambda>e. fst (fst e) = ns \<and> map_of (Labels (snd e)) ''rdns-value-type'' = Some t2)
           (remove (ns, generateName md5hex n1 t1) (objects c))
         = filter (\<lambda>e. fst (fst e) = ns \<and> map_of (Labels (snd e)) ''rdns-value-type'' = Some t2)
             (objects c)"
proof -
  show "map_of (remove (ns, generateName md5hex n1 t1) (objects c)) (ns, generateName md5hex n t2)
           = map_of (objects c) (ns, generateName md5hex n t2)"
    using generateName_neq [OF len ne, of n1 n] by (auto simp: map_of_remove)
  have "\<forall>e \<in> set (objects c). fst e = (ns, generateName md5hex n1 t1) \<longrightarrow>
          \<not> (fst (fst e) = ns \<and> map_of (Labels (snd e)) ''rdns-value-type'' = Some t2)"
    using wf len ne by (auto simp: list_all_iff wf_object_def generateName_drop)
  then show "filter (\<lambda>e. fst (fst e) = ns \<and> map_of (Labels (snd e)) ''rdns-value-type'' = Some t2)
           (remove (ns, generateName md5hex n1 t1) (objects c))
         = filter (\<lambda>e. fst (fst e) = ns \<and> map_of (Labels (snd e)) ''rdns-value-type'' = Some t2)
             (objects c)"
    by (rule filter_remove_unselected)
qed

lemma unobserved_refl: "unobserved md5hex ns t2 c c"
  by (simp add: unobserved_def)

lemma found_wf:
  assumes "list_all wf_object (objects c)" and "map_of (objects c) key = Some cm"
  shows "Namespace cm = fst key" "Name cm = snd key"
  using assms map_of_SomeD [OF assms(2)]
  by (auto simp: list_all_iff wf_object_def)

lemma writeValue_unobserved:
  assumes len: "\<forall>name. length (md5hex name) = 32" and wf: "list_all wf_object (objects c)"
    and ne: "t1 \<noteq> t2"
  shows "unobserved md5hex (namespace s) t2 c (snd (K8sStore_writeValue md5hex s c n1 t1 v u))"
proof (cases "k8s_Get c (namespace s, generateName md5hex n1 t1)")
  case (Inl err)
  show ?thesis
  proof (cases "err = errNotFound")
    case True
    with Inl show ?thesis
      using k8s_put_unobserved [OF len wf ne fill_label, of "namespace s" n1]
      by (auto simp: K8sStore_writeValue_def Let_def k8s_Create_def fill_key unobserved_def)
  next
    case False
    with Inl show ?thesis
      by (simp add: K8sStore_writeValue_def Let_def unobserved_refl)
  qed
next
  case (Inr cm)
  then have "map_of (objects c) (namespace s, generateName md5hex n1 t1) = Some cm"
    by (auto simp: k8s_Get_def split: if_splits option.splits)
  from found_wf [OF wf this]
  have k: "Namespace cm = namespace s" "Name cm = generateName md5hex n1 t1"
    by simp_all
  with Inr show ?thesis
    using k8s_put_unobserved [OF len wf ne fill_label, of "namespace s" n1]
    by (auto simp: K8sStore_writeValue_def Let_def k8s_Update_def fill_key unobserved_def)
qed

lemma DeleteValue_unobserved:
  assumes len: "\<forall>name. length (md5hex name) = 32" and wf: "list_all wf_object (objects c)"
    and ne: "t1 \<noteq> t2"
  shows "unobserved md5hex (namespace s) t2 c (snd (K8sStore_DeleteValue md5hex s c n1 t1))"
proof (cases "k8s_Get c (namespace s, generateName md5hex n1 t1)")
  case (Inl err)
  then show ?thesis
    by (simp add: K8sStore_DeleteValue_def unobserved_refl)
next
  case (Inr cm)
  then have "map_of (objects c) (namespace s, generateName md5hex n1 t1) = Some cm"
    by (auto simp: k8s_Get_def split: if_splits option.splits)
  from found_wf [OF wf this]
  have k: "Namespace cm = namespace s" "Name cm = generateName md5hex n1 t1"
    by simp_all
  with Inr show ?thesis
    using k8s_remove_unobserved [OF len wf ne, of "namespace s" n1]
    by (auto simp: K8sStore_DeleteValue_def k8s_Delete_def unobserved_def)
qed

lemma mutate_k8s:
  assumes len: "\<forall>name. length (md5hex name) = 32" and wf: "list_all wf_object (objects c)"
    and ne: "t1 \<noteq> t2"
  shows "\<exists>c'. mutate (OnK8s md5hex s c) t1 mu = OnK8s md5hex s c'
           \<and> unobserved md5hex (namespace s) t2 c c'"
proof (cases mu)
  case (Set_of n v)
  with writeValue_unobserved [OF assms, of s n v False] show ?thesis
    by (simp add: SetValue_def K8sStore_SetValue_def case_prod_beta)
next
  case (Update_of n v)
  with writeValue_unobserved [OF assms, of s n v True] show ?thesis
    by (simp add: UpdateValue_def K8sStore_UpdateValue_def case_prod_beta)
next
  case (Delete_of n)
  with DeleteValue_unobserved [OF assms, of s n] show ?thesis
    by (simp add: DeleteValue_def case_prod_beta)
qed

lemma K8sStore_GetValue_same:
  assumes "unobserved md5hex (namespace s) t2 c c'"
  shows "K8sStore_GetValue dec md5hex s c' n t2 m = K8sStore_GetValue dec md5hex s c n t2 m"
  using assms by (simp add: K8sStore_GetValue_def k8s_Get_def unobserved_def)

lemma K8sStore_ListValues_same:
  assumes "unobserved md5hex (namespace s) t2 c c'"
  shows "K8sStore_ListValues s c' t2 = K8sStore_ListValues s c t2"
  using assms by (simp add: K8sStore_ListValues_def k8s_List_def unobserved_def)

lemma K8sStore_expired_loop_same:
  assumes "unobserved md5hex (namespace s) t2 c c'"
  shows "K8sStore_expired_loop md5hex s c' t2 cutoff names acc
       = K8sStore_expired_loop md5hex s c t2 cutoff names acc"
proof (induction names arbitrary: acc)
  case Nil
  show ?case by simp
next
  case (Cons n names)
  show ?case
    by (simp only: K8sStore_expired_loop.simps K8sStore_GetValue_same [OF assms] Cons.IH)
qed

lemma partitions_k8s:
  assumes len: "\<forall>name. length (md5hex name) = 32" and wf: "list_all wf_object (objects c)"
    and ne: "t1 \<noteq> t2"
  shows "GetValue dec (mutate (OnK8s md5hex s c) t1 mu) n2 t2 m = GetValue dec (OnK8s md5hex s c) n2 t2 m
       \<and> ListValues (mutate (OnK8s md5hex s c) t1 mu) t2 = ListValues (OnK8s md5hex s c) t2
       \<and> GetExpiredValues (mutate (OnK8s md5hex s c) t1 mu) t2 cutoff
           = GetExpiredValues (OnK8s md5hex s c) t2 cutoff"
proof -
  from mutate_k8s [OF assms, of s mu] obtain c' where
    mu: "mutate (OnK8s md5hex s c) t1 mu = OnK8s md5hex s c'"
    and un: "unobserved md5hex (namespace s) t2 c c'"
    by blast
  show ?thesis
    by (simp only: mu GetValue_def ListValues_def GetExpiredValues_def KeyValueStore.case
        K8sStore_GetExpiredValues_def K8sStore_GetValue_same [OF un]
        K8sStore_ListValues_same [OF un] K8sStore_expired_loop_same [OF un] simp_thms)
qed

text \<open>Every mutation keeps a well-formed store well-formed.\<close>

lemma Split_free: "w \<in> set (Split c s) \<Longrightarrow> c \<notin> set w"
proof (induction s arbitrary: w)
  case Nil
  then show ?case by simp
next
  case (Cons x s)
  then show ?case
    using Split_not_Nil [of c s]
    by (cases "Split c s") (auto split: if_splits)
qed

lemma clean_elems_clean:
  assumes "\<forall>w \<in> set cs. CHR ''/'' \<notin> set w" and "list_all clean_elem out"
  shows "list_all clean_elem (clean_elems r cs out)"
  using assms
proof (induction cs arbitrary: out)
  case Nil
  then show ?case by simp
next
  case (Cons c cs)
  have b: "list_all clean_elem (butlast out)"
    using Cons.prems(2) by (auto simp: list_all_iff dest: in_set_butlastD)
  have "clean_elem ''..''"
    by (simp add: clean_elem_def)
  then have d: "list_all clean_elem (out @ [''..''])"
    using Cons.prems(2) by simp
  have e: "list_all clean_elem (out @ [c])" if "c \<noteq> []" "c \<noteq> ''.''"
  proof -
    from Cons.prems(1) that have "clean_elem c"
      by (simp add: clean_elem_def)
    with Cons.prems(2) show ?thesis by simp
  qed
  from Cons.prems(1) have cs: "\<forall>w \<in> set cs. CHR ''/'' \<notin> set w" by simp
  show ?case
    using Cons.IH [OF cs Cons.prems(2)] Cons.IH [OF cs b] Cons.IH [OF cs d] Cons.IH [OF cs e]
    by (cases r) auto
qed

lemma path_Join_clean:
  "path_Join elem = Some p \<Longrightarrow> list_all clean_elem (snd p)"
  by (auto simp: path_Join_def path_Clean_def Split_free clean_elems_clean split: list.splits)

lemma set_put: "fst ` set (put k v m) \<subseteq> insert k (fst ` set m)"
  by (induction m) auto

lemma wf_disk_put:
  assumes "wf_disk d" and "list_all clean_elem (snd p)"
  shows "wf_disk (d\<lparr>files := put p c (files d)\<rparr>)"
proof -
  have "list_all clean_elem (snd q)"
    if "q \<in> set (map fst (put p c (files d)) @ dirs d)" for q
  proof -
    from that set_put [of p c "files d"]
    have "q = p \<or> q \<in> set (map fst (files d) @ dirs d)" by auto
    with assms show ?thesis
      unfolding wf_disk_def list_all_iff by blast
  qed
  then show ?thesis
    by (simp add: wf_disk_def list_all_iff)
qed

lemma wf_disk_remove:
  assumes "wf_disk d"
  shows "wf_disk (d\<lparr>files := remove p (files d)\<rparr>)"
  using assms by (auto simp: wf_disk_def list_all_iff remove_def)

lemma wf_disk_writeValue:
  "wf_disk d \<Longrightarrow> wf_disk (snd (Filesystem_writeValue fs d n t v u))"
  by (auto simp: Filesystem_writeValue_def Let_def wf_disk_put path_Join_clean
      split: sum.splits option.splits)

lemma wf_disk_DeleteValue:
  "wf_disk d \<Longrightarrow> wf_disk (snd (Filesystem_DeleteValue fs d n t))"
  by (auto simp: Filesystem_DeleteValue_def Let_def wf_disk_remove
      split: sum.splits option.splits bool.splits)

lemma wf_objects_put:
  assumes "list_all wf_object m" and "wf_object (k, v)"
  shows "list_all wf_object (put k v m)"
  using assms by (induction m) auto

lemma wf_objects_remove:
  assumes "list_all wf_object m"
  shows "list_all wf_object (remove k m)"
  using assms by (simp add: remove_def list_all_iff)

lemma wf_objects_writeValue:
  assumes len: "\<forall>name. length (md5hex name) = 32" and wf: "list_all wf_object (objects c)"
  shows "list_all wf_object (objects (snd (K8sStore_writeValue md5hex s c n t v u)))"
proof (cases "k8s_Get c (namespace s, generateName md5hex n t)")
  case (Inl err)
  have "wf_object ((namespace s, generateName md5hex n t),
      K8sStore_fill n t v \<lparr>Name = generateName md5hex n t, Namespace = namespace s,
        Annotations = [], Labels = [], Data = []\<rparr>)"
    using len by (simp add: wf_object_def fill_key fill_label generateName_drop)
  with Inl wf show ?thesis
    by (auto simp: K8sStore_writeValue_def Let_def k8s_Create_def fill_key wf_objects_put)
next
  case (Inr cm)
  then have "map_of (objects c) (namespace s, generateName md5hex n t) = Some cm"
    by (auto simp: k8s_Get_def split: if_splits option.splits)
  from found_wf [OF wf this]
  have k: "Namespace cm = namespace s" "Name cm = generateName md5hex n t"
    by simp_all
  then have "wf_object ((namespace s, generateName md5hex n t), K8sStore_fill n t v cm)"
    using len by (simp add: wf_object_def fill_key fill_label generateName_drop)
  with Inr wf k show ?thesis
    by (auto simp: K8sStore_writeValue_def Let_def k8s_Update_def fill_key wf_objects_put)
qed

lemma wf_objects_DeleteValue:
  assumes "list_all wf_object (objects c)"
  shows "list_all wf_object (objects (snd (K8sStore_DeleteValue md5hex s c n t)))"
  using assms
  by (auto simp: K8sStore_DeleteValue_def k8s_Delete_def wf_objects_remove split: sum.splits)

lemma store_ok_mutate: "store_ok store \<Longrightarrow> store_ok (mutate store t mu)"
proof (cases store)
  case (OnFilesystem fs d)
  assume "store_ok store"
  with OnFilesystem have "wf_disk d" by (simp add: store_ok_def)
  with OnFilesystem show ?thesis
    by (cases mu)
       (simp_all add: store_ok_def SetValue_def UpdateValue_def DeleteValue_def case_prod_beta
          Filesystem_SetValue_def Filesystem_UpdateValue_def wf_disk_writeValue wf_disk_DeleteValue)
next
  case (OnK8s md5hex s c)
  assume "store_ok store"
  with OnK8s have "\<forall>name. length (md5hex name) = 32" and "list_all wf_object (objects c)"
    by (simp_all add: store_ok_def)
  with OnK8s show ?thesis
    by (cases mu)
       (simp_all add: store_ok_def SetValue_def UpdateValue_def DeleteValue_def case_prod_beta
          K8sStore_SetValue_def K8sStore_UpdateValue_def wf_objects_writeValue
          wf_objects_DeleteValue)
qed

text \<open>
  C9, as the code has it. For two different value types of the six, a mutation
  (\<open>Set\<close>, \<open>Update\<close> or \<open>Delete\<close>) under the first leaves what \<open>Get\<close>, \<open>List\<close> and
  \<open>GetExpired\<close> return under the second unchanged: on the config-map store for all
  names (the config maps being those the store writes), and on the file-system store
  for names that are single path elements, which is what a file name is (the paths of
  the file system being cleaned paths).
\<close>

theorem partitions_disjoint:
  assumes "t1 \<in> set ValueTypes" and "t2 \<in> set ValueTypes" and "t1 \<noteq> t2"
    and "store_ok store" and "name_ok store (mutation_name mu)" and "name_ok store n2"
  shows "GetValue dec (mutate store t1 mu) n2 t2 m = GetValue dec store n2 t2 m
       \<and> ListValues (mutate store t1 mu) t2 = ListValues store t2
       \<and> GetExpiredValues (mutate store t1 mu) t2 cutoff = GetExpiredValues store t2 cutoff"
proof (cases store)
  case (OnFilesystem fs d)
  with assms have "wf_disk d" and "elem_ok (mutation_name mu)" and "elem_ok n2"
    by (simp_all add: store_ok_def name_ok_def)
  from partitions_fs [OF assms(1-3) this] OnFilesystem show ?thesis
    by (simp only:)
next
  case (OnK8s md5hex s c)
  with assms have "\<forall>name. length (md5hex name) = 32" and "list_all wf_object (objects c)"
    by (simp_all add: store_ok_def)
  from partitions_k8s [OF this assms(3)] OnK8s show ?thesis
    by (simp only:)
qed

lemma disk_token_read:
  "GetValue (decode_struct Token_field) (OnFilesystem rdns_fs disk_token) ''a.lb.example''
     TokenValueType (Some Token_zero)
   = (''{\"token\":\"abcdefgh\",\"fqdn\":\"a.lb.example\",\"createdOn\":1000}'', None, Some token_old)"
  by (simp add: GetValue_def Filesystem_GetValue_def rdns_fs_def value_types token_path)
     (simp add: disk_token_def stat_def token_old_Unmarshal)

lemma cluster_token_read:
  "GetValue (decode_struct Token_field) (OnK8s md5hex_names rdns_k8s cluster_token) ''a.lb.example''
     TokenValueType (Some Token_zero)
   = (''{\"token\":\"abcdefgh\",\"fqdn\":\"a.lb.example\",\"createdOn\":1000}'', None, Some token_old)"
  by (simp add: GetValue_def K8sStore_GetValue_def cluster_token_Get)
     (simp add: cm_token_def index_def token_old_Unmarshal)

lemma traversal_path:
  "path_Join [''/var/rdns'', ''a-record'', ''../token/a.lb.example'']
     = Some (True, [''var'', ''rdns'', ''token'', ''a.lb.example''])"
  by (simp add: path_eval)

lemma traversal_delete:
  "mutate (OnFilesystem rdns_fs disk_token) ARecordValueType (Delete_of ''../token/a.lb.example'')
     = OnFilesystem rdns_fs (disk_token\<lparr>files := []\<rparr>)"
  by (simp add: DeleteValue_def Filesystem_DeleteValue_def rdns_fs_def value_types traversal_path
        fileExists_def)
     (simp add: disk_token_def stat_def remove_def)

lemma traversal_read:
  "GetValue (decode_struct Token_field) (OnFilesystem rdns_fs (disk_token\<lparr>files := []\<rparr>))
     ''a.lb.example'' TokenValueType (Some Token_zero)
   = ([], None, Some Token_zero)"
  by (simp add: GetValue_def Filesystem_GetValue_def rdns_fs_def value_types token_path)
     (simp add: disk_token_def rdns_dirs_def value_types stat_def is_dir_def through_file_def)

text \<open>
  Stated for all names, the claim fails on the file system: \<open>path.Join\<close> cleans the path, so
  the name \<open>../token/a.lb.example\<close> under the value type \<open>a-record\<close> is the file of the
  token of \<open>a.lb.example\<close>. Deleting it under \<open>a-record\<close> removes the token.
\<close>

theorem partitions_traversal_counterexample:
  "ARecordValueType \<noteq> TokenValueType
   \<and> GetValue (decode_struct Token_field) (OnFilesystem rdns_fs disk_token) ''a.lb.example''
        TokenValueType (Some Token_zero)
      = (''{\"token\":\"abcdefgh\",\"fqdn\":\"a.lb.example\",\"createdOn\":1000}'', None, Some token_old)
   \<and> GetValue (decode_struct Token_field)
        (mutate (OnFilesystem rdns_fs disk_token) ARecordValueType (Delete_of ''../token/a.lb.example''))
        ''a.lb.example'' TokenValueType (Some Token_zero)
      = ([], None, Some Token_zero)"
proof -
  have "ARecordValueType \<noteq> TokenValueType"
    by (simp add: value_types)
  then show ?thesis
    by (simp only: disk_token_read traversal_delete traversal_read simp_thms)
qed

lemma disk_token_ok: "store_ok (OnFilesystem rdns_fs disk_token)"
  by (simp add: store_ok_def wf_disk_def clean_elem_def disk_token_def rdns_dirs_def value_types)

lemma cluster_token_ok: "store_ok (OnK8s md5hex_names rdns_k8s cluster_token)"
  by (simp add: store_ok_def md5hex_names_def cluster_token_def wf_object_def cm_token_def)

text \<open>
  The token of \<open>a.lb.example\<close> is read unchanged after the A record of the same name is
  deleted on the file system, and after a value is set under \<open>a-record\<close> in the cluster,
  there also under the name \<open>../token/a.lb.example\<close>.
\<close>

theorem partitions_disjoint_witness:
  "GetValue (decode_struct Token_field)
     (mutate (OnFilesystem rdns_fs disk_token) ARecordValueType (Delete_of ''a.lb.example''))
     ''a.lb.example'' TokenValueType (Some Token_zero)
   = (''{\"token\":\"abcdefgh\",\"fqdn\":\"a.lb.example\",\"createdOn\":1000}'', None, Some token_old)
   \<and> GetValue (decode_struct Token_field)
     (mutate (OnK8s md5hex_names rdns_k8s cluster_token) ARecordValueType
        (Set_of ''../token/a.lb.example'' (JObj [])))
     ''a.lb.example'' TokenValueType (Some Token_zero)
   = (''{\"token\":\"abcdefgh\",\"fqdn\":\"a.lb.example\",\"createdOn\":1000}'', None, Some token_old)"
proof -
  have t: "ARecordValueType \<in> set ValueTypes" "TokenValueType \<in> set ValueTypes"
    "ARecordValueType \<noteq> TokenValueType"
    by (simp_all add: value_types)
  have n: "name_ok (OnFilesystem rdns_fs disk_token) (mutation_name (Delete_of ''a.lb.example''))"
    "name_ok (OnFilesystem rdns_fs disk_token) ''a.lb.example''"
    "name_ok (OnK8s md5hex_names rdns_k8s cluster_token)
       (mutation_name (Set_of ''../token/a.lb.example'' (JObj [])))"
    "name_ok (OnK8s md5hex_names rdns_k8s cluster_token) ''a.lb.example''"
    by (simp_all add: name_ok_def elem_ok_def clean_elem_def)
  from partitions_disjoint [OF t disk_token_ok n(1,2), of "decode_struct Token_field" "Some Token_zero"]
    partitions_disjoint [OF t cluster_token_ok n(3,4), of "decode_struct Token_field" "Some Token_zero"]
  show ?thesis
    by (simp only: disk_token_read cluster_token_read simp_thms)
qed


end
